theory Spec2Isabelle
  imports
    Main
    "HOL-Library.Char_ord"
    "HOL-Library.List_Lexorder"
    "HOL-Library.Product_Lexorder"
    "HOL-Library.Multiset"
begin

section \<open>Python values, errors and strings\<close>

text \<open>
  The module \<^verbatim>\<open>utilities.py\<close> post-processes posterior draws with pandas. Every
  \<^verbatim>\<open>raise\<close> of the source, and every exception that a pandas or Python primitive
  throws on the inputs the source hands to it, is a value of \<open>py_error\<close>; a function
  that can raise returns \<open>py_error + 'a\<close>, with \<open>Inl\<close> for the exception.
\<close>

datatype py_error =
    ValueError string
  | ValueError_missing_contrasts "string list"
  | OverflowError
  | KeyError "string list"
  | NameError string
  | AttributeError string
  | TypeError string
  | ReError string
  | EngineError string

definition ebind :: "py_error + 'a \<Rightarrow> ('a \<Rightarrow> py_error + 'b) \<Rightarrow> py_error + 'b" where
  "ebind m f = (case m of Inl e \<Rightarrow> Inl e | Inr v \<Rightarrow> f v)"

fun emap :: "('a \<Rightarrow> py_error + 'b) \<Rightarrow> 'a list \<Rightarrow> py_error + 'b list" where
  "emap f [] = Inr []"
| "emap f (a # as) =
     (case f a of
        Inl e \<Rightarrow> Inl e
      | Inr b \<Rightarrow> (case emap f as of Inl e \<Rightarrow> Inl e | Inr bs \<Rightarrow> Inr (b # bs)))"

text \<open>Python's \<^verbatim>\<open>sub in s\<close> on strings: \<open>sub\<close> occurs in \<open>s\<close> as a contiguous run.\<close>

fun str_contains :: "string \<Rightarrow> string \<Rightarrow> bool" where
  "str_contains sub [] = (sub = [])"
| "str_contains sub (c # cs) = (take (length sub) (c # cs) = sub \<or> str_contains sub cs)"

text \<open>
  \<^verbatim>\<open>f"{n}"\<close> of a non-negative integer: its decimal digits, most significant first,
  without a leading zero. \<open>int_of_digits\<close> is Python's \<^verbatim>\<open>int(s)\<close> on a run of the
  digits \<^verbatim>\<open>0-9\<close>, the only strings the index pattern captures.
\<close>

definition digit_char :: "nat \<Rightarrow> char" where
  "digit_char d = ''0123456789'' ! d"

function decimal :: "nat \<Rightarrow> string" where
  "decimal n =
     (if n < 10 then [digit_char n] else decimal (n div 10) @ [digit_char (n mod 10)])"
  by pat_completeness auto
termination
  by (relation "measure id") auto

declare decimal.simps [simp del]

definition digit_val :: "char \<Rightarrow> nat" where
  "digit_val c = of_char c - 48"

definition int_of_digits :: "string \<Rightarrow> nat" where
  "int_of_digits s = foldl (\<lambda>a c. 10 * a + digit_val c) 0 s"

section \<open>The index pattern (Index Extractor)\<close>

text \<open>
  Line 28 of the source:
  \<^verbatim>\<open>pattern = r"([1-9]+)?\.?([a-zA-Z0-9_\.]+)\[([0-9]+),([0-9]+)"\<close>.
  The character classes of the pattern, as sets of ASCII characters.
\<close>

definition is_19 :: "char \<Rightarrow> bool" where
  "is_19 c = (c \<in> set ''123456789'')"

definition is_digit :: "char \<Rightarrow> bool" where
  "is_digit c = (c \<in> set ''0123456789'')"

definition is_alpha :: "char \<Rightarrow> bool" where
  "is_alpha c = (c \<in> set ''abcdefghijklmnopqrstuvwxyzABCDEFGHIJKLMNOPQRSTUVWXYZ'')"

definition is_var_char :: "char \<Rightarrow> bool" where
  "is_var_char c = (is_alpha c \<or> is_digit c \<or> c = CHR ''_'' \<or> c = CHR ''.'')"

text \<open>
  A backtracking matcher, as Python's \<^verbatim>\<open>re\<close> is one: every piece of the pattern
  maps the rest of the input to the list of its matches (what it consumed, what is
  left), in the order in which the matcher tries them. A greedy \<^verbatim>\<open>X+\<close> tries the
  longest run first and gives characters back one at a time; a greedy \<^verbatim>\<open>X?\<close> tries
  \<^verbatim>\<open>X\<close> first and then the empty match. A group inside \<^verbatim>\<open>(...)?\<close> that did not
  take part in the match is \<open>None\<close> (pandas shows it as NaN).
\<close>

definition rx_plus :: "(char \<Rightarrow> bool) \<Rightarrow> string \<Rightarrow> (string \<times> string) list" where
  "rx_plus P s =
     map (\<lambda>k. (take k s, drop k s)) (rev [1 ..< Suc (length (takeWhile P s))])"

definition rx_lit :: "char \<Rightarrow> string \<Rightarrow> (string \<times> string) list" where
  "rx_lit c s = (case s of [] \<Rightarrow> [] | d # ds \<Rightarrow> if d = c then [([d], ds)] else [])"

definition rx_opt :: "(string \<Rightarrow> ('a \<times> string) list) \<Rightarrow> string \<Rightarrow> ('a option \<times> string) list" where
  "rx_opt p s = map (\<lambda>(a, r). (Some a, r)) (p s) @ [(None, s)]"

type_synonym index_groups = "string option \<times> string \<times> string \<times> string"

text \<open>All matches of the pattern that start at the head of \<open>s\<close>, in backtracking order.\<close>

definition pattern_at :: "string \<Rightarrow> index_groups list" where
  "pattern_at s =
     List.bind (rx_opt (rx_plus is_19) s) (\<lambda>(chain, s1).
     List.bind (rx_opt (rx_lit CHR ''.'') s1) (\<lambda>(dot, s2).
     List.bind (rx_plus is_var_char s2) (\<lambda>(var, s3).
     List.bind (rx_lit CHR ''['' s3) (\<lambda>(lb, s4).
     List.bind (rx_plus is_digit s4) (\<lambda>(xs, s5).
     List.bind (rx_lit CHR '','' s5) (\<lambda>(comma, s6).
     List.bind (rx_plus is_digit s6) (\<lambda>(ys, s7).
       [(chain, var, xs, ys)])))))))"

text \<open>
  \<^verbatim>\<open>Series.str.extract(pattern)\<close> (line 29) searches each string as \<^verbatim>\<open>re.search\<close>
  does: the leftmost start position with a match, and there the first match in
  backtracking order. A string with no match gives NaN in all four columns: \<open>None\<close>.
\<close>

fun str_extract :: "string \<Rightarrow> index_groups option" where
  "str_extract [] = (case pattern_at [] of [] \<Rightarrow> None | m # ms \<Rightarrow> Some m)"
| "str_extract (c # cs) =
     (case pattern_at (c # cs) of [] \<Rightarrow> str_extract cs | m # ms \<Rightarrow> Some m)"


section \<open>The fit object of the inference engine\<close>

text \<open>
  The fit is an external object (cmdstanpy). The source calls three of its methods;
  they are fields of the record, so every theorem holds for any engine.
  \<^item> \<^verbatim>\<open>fit.stan_variables().keys()\<close>: the names of the model's variables;
  \<^item> \<^verbatim>\<open>fit.draws_pd(vars)\<close>: a data frame with one row per draw. Its columns
    \<^verbatim>\<open>chain__\<close>, \<^verbatim>\<open>iter__\<close>, \<^verbatim>\<open>draw__\<close> are \<open>df_ids\<close>, one triple per row; its
    other columns are \<open>df_cols\<close>, each a name and its values, in column order;
  \<^item> \<^verbatim>\<open>fit.summary(probs)\<close>: a data frame indexed by parameter name
    (\<open>sm_index\<close>) with named columns of statistics (\<open>sm_cols\<close>); \<open>None\<close> is NaN.
\<close>

record 'v draws_df =
  df_ids :: "(int \<times> int \<times> int) list"
  df_cols :: "(string \<times> 'v list) list"

record 'v summary_df =
  sm_index :: "string list"
  sm_cols :: "(string \<times> 'v option list) list"

record 'v fit =
  stan_variables :: "string list"
  draws_pd :: "string list \<Rightarrow> py_error + 'v draws_df"
  summary :: "nat list \<Rightarrow> py_error + 'v summary_df"

section \<open>Draw Reshaper: \<^verbatim>\<open>draws_to_tibble_x_y\<close>\<close>

text \<open>
  A row of the long table after \<^verbatim>\<open>melt\<close> (line 25): the three identifier columns,
  the column's name in \<^verbatim>\<open>parameter\<close> and its cell in \<^verbatim>\<open>value\<close>.
\<close>

record 'v long_row =
  l_chain :: int
  l_iter :: int
  l_draw :: int
  l_parameter :: string
  l_value :: 'v

text \<open>
  A row of the table from line 33 on, with the columns that line 40 keeps:
  \<^verbatim>\<open>chain__\<close>, \<^verbatim>\<open>iter__\<close>, \<^verbatim>\<open>draw__\<close>, \<^verbatim>\<open>variable\<close>, the two index columns
  named by the arguments \<^verbatim>\<open>x\<close> and \<^verbatim>\<open>y\<close>, and \<^verbatim>\<open>value\<close>. The columns
  \<^verbatim>\<open>parameter\<close> and \<^verbatim>\<open>chain\<close> are read by nothing before line 40 drops them.
\<close>

record 'v draw_row =
  chain_id :: int
  iteration :: int
  draw :: int
  variable :: string
  idx_x :: int
  idx_y :: int
  val :: 'v

text \<open>
  Python's \<^verbatim>\<open>re\<close> module is external, like the fit: the argument \<open>rx\<close> of the
  functions below stands for it. \<open>rx pattern\<close> is \<^verbatim>\<open>re.compile(pattern)\<close>: the
  exception \<^verbatim>\<open>re.error\<close> for an ill-formed pattern, and otherwise the test
  \<^verbatim>\<open>re.search(pattern, s) is not None\<close> on a string \<open>s\<close>. Every general theorem
  holds for every such engine.

  Line 19: the names matching \<^verbatim>\<open>par\<close>. \<^verbatim>\<open>re.search(par, var)\<close> compiles the
  pattern at the first name, so an ill-formed pattern raises unless the fit has no
  variable. Nothing below line 19 reads \<^verbatim>\<open>par_names\<close>.
\<close>

type_synonym regex_engine = "string \<Rightarrow> py_error + (string \<Rightarrow> bool)"

definition par_names :: "regex_engine \<Rightarrow> 'v fit \<Rightarrow> string \<Rightarrow> py_error + string list" where
  "par_names rx fit par =
     (if stan_variables fit = [] then Inr []
      else ebind (rx par) (\<lambda>found. Inr (filter found (stan_variables fit))))"

text \<open>
  Line 25: \<^verbatim>\<open>melt\<close> with \<^verbatim>\<open>value_vars\<close> the columns whose name contains
  \<^verbatim>\<open>'beta'\<close>: one block of rows per such column, in column order, each block in the
  row order of the frame.
\<close>

definition melt :: "'v draws_df \<Rightarrow> 'v long_row list" where
  "melt draws_df =
     concat (map (\<lambda>(name, vals).
              map (\<lambda>((ch, it, dr), v).
                    \<lparr>l_chain = ch, l_iter = it, l_draw = dr, l_parameter = name, l_value = v\<rparr>)
                  (zip (df_ids draws_df) vals))
            (filter (\<lambda>(name, vals). str_contains ''beta'' name) (df_cols draws_df)))"

text \<open>
  Lines 32 and 33: \<^verbatim>\<open>astype(int)\<close> on a column of captured strings. A NaN cell
  (no match) raises \<^verbatim>\<open>ValueError\<close>; digits beyond the 64-bit range raise
  \<^verbatim>\<open>OverflowError\<close>. The whole \<^verbatim>\<open>x\<close> column is converted before the \<^verbatim>\<open>y\<close> column.
\<close>

definition astype_int :: "string option \<Rightarrow> py_error + int" where
  "astype_int cell =
     (case cell of
        None \<Rightarrow> Inl (ValueError ''cannot convert float NaN to integer'')
      | Some s \<Rightarrow>
          if int (int_of_digits s) < 2 ^ 63 then Inr (int (int_of_digits s))
          else Inl OverflowError)"

definition x_capture :: "index_groups option \<Rightarrow> string option" where
  "x_capture e = map_option (\<lambda>(chain, var, xs, ys). xs) e"

definition y_capture :: "index_groups option \<Rightarrow> string option" where
  "y_capture e = map_option (\<lambda>(chain, var, xs, ys). ys) e"

text \<open>
  The \<^verbatim>\<open>variable\<close> cell of a row. Where the pattern did not match pandas has NaN;
  no such row is left once line 32 has returned (lemma \<open>extract_indices_matched\<close>).
\<close>

definition variable_capture :: "index_groups option \<Rightarrow> string" where
  "variable_capture e = (case e of None \<Rightarrow> [] | Some (chain, var, xs, ys) \<Rightarrow> var)"

definition extract_indices :: "'v long_row list \<Rightarrow> py_error + 'v draw_row list" where
  "extract_indices draws_long =
     (let ext = map (\<lambda>r. str_extract (l_parameter r)) draws_long in
      ebind (emap astype_int (map x_capture ext)) (\<lambda>xs.
      ebind (emap astype_int (map y_capture ext)) (\<lambda>ys.
        Inr (map (\<lambda>(r, e, x, y).
                   \<lparr>chain_id = l_chain r, iteration = l_iter r, draw = l_draw r,
                    variable = variable_capture e, idx_x = x, idx_y = y, val = l_value r\<rparr>)
                 (zip draws_long (zip ext (zip xs ys)))))))"

text \<open>
  Line 36: \<^verbatim>\<open>sort_values(by=['variable', x, y, 'chain__'])\<close>. pandas sorts on several
  keys with a stable lexicographic sort; \<open>sort_key\<close> is stable. Strings compare
  character by character.
\<close>

definition sort_values :: "'v draw_row list \<Rightarrow> 'v draw_row list" where
  "sort_values rows = sort_key (\<lambda>r. (variable r, idx_x r, idx_y r, chain_id r)) rows"

text \<open>
  Line 37: \<^verbatim>\<open>groupby(['variable', x, y]).apply(lambda df: df.assign(draw__=range(1,
  len(df) + 1)))\<close>: the groups in ascending key order, each group keeping the order of
  its rows and getting \<^verbatim>\<open>draw__\<close> \<open>= 1, ..., len\<close> (pandas 1 and 2, where
  \<^verbatim>\<open>apply\<close> hands the grouping columns to the function; the table is sorted by the
  group key at this point, so the order of the groups is the order of the table).
\<close>

definition group_key :: "'v draw_row \<Rightarrow> string \<times> int \<times> int" where
  "group_key r = (variable r, idx_x r, idx_y r)"

definition assign_draw :: "'v draw_row list \<Rightarrow> 'v draw_row list" where
  "assign_draw df = map (\<lambda>(r, i). r\<lparr>draw := i\<rparr>) (zip df [1 .. int (length df)])"

definition groupby_assign :: "'v draw_row list \<Rightarrow> 'v draw_row list" where
  "groupby_assign rows =
     concat (map (\<lambda>k. assign_draw (filter (\<lambda>r. group_key r = k) rows))
                 (sort (remdups (map group_key rows))))"

text \<open>
  The rows of the long table before sorting, for a frame of the engine: lines 25 to 33.
\<close>

definition draws_long_of :: "'v draws_df \<Rightarrow> py_error + 'v draw_row list" where
  "draws_long_of draws_df = extract_indices (melt draws_df)"

text \<open>
  The function. The frame is always asked for \<^verbatim>\<open>'beta'\<close> (line 22); \<^verbatim>\<open>par\<close> is
  used by line 19, whose list nothing reads, and by the last filter (line 41).
\<close>

definition draws_to_tibble_x_y ::
  "regex_engine \<Rightarrow> 'v fit \<Rightarrow> string \<Rightarrow> py_error + 'v draw_row list" where
  "draws_to_tibble_x_y rx fit par =
     ebind (par_names rx fit par) (\<lambda>par_names.
     ebind (draws_pd fit [''beta'', ''chain__'', ''iter__'', ''draw__'']) (\<lambda>draws_df.
     ebind (draws_long_of draws_df) (\<lambda>draws_long.
       Inr (filter (\<lambda>r. variable r = par) (groupby_assign (sort_values draws_long))))))"

text \<open>
  The rows of one \<^verbatim>\<open>(variable, x, y)\<close> group of a table, in table order, and what a
  row holds besides its \<^verbatim>\<open>draw__\<close> number.
\<close>

definition group_of :: "string \<times> int \<times> int \<Rightarrow> 'v draw_row list \<Rightarrow> 'v draw_row list" where
  "group_of k rows = filter (\<lambda>r. group_key r = k) rows"

definition content :: "'v draw_row \<Rightarrow> int \<times> int \<times> string \<times> int \<times> int \<times> 'v" where
  "content r = (chain_id r, iteration r, variable r, idx_x r, idx_y r, val r)"

section \<open>Contrast Evaluator: \<^verbatim>\<open>mutate_from_expr_list\<close>\<close>

text \<open>
  Character classes of the patterns of this function. A character stands for a code
  point below 256; \<^verbatim>\<open>\s\<close> matches the code points 9 to 13, 28 to 32, 133 and 160
  among them.
\<close>

definition is_space :: "char \<Rightarrow> bool" where
  "is_space c =
     (let n = (of_char c :: nat)
      in (9 \<le> n \<and> n \<le> 13) \<or> (28 \<le> n \<and> n \<le> 32) \<or> n = 133 \<or> n = 160)"

definition is_word_char :: "char \<Rightarrow> bool" where
  "is_word_char c = (is_alpha c \<or> is_digit c \<or> c = CHR ''_'')"

definition rx_class :: "(char \<Rightarrow> bool) \<Rightarrow> string \<Rightarrow> (string \<times> string) list" where
  "rx_class P s = (case s of [] \<Rightarrow> [] | d # ds \<Rightarrow> if P d then [([d], ds)] else [])"

text \<open>
  Line 101, the pattern \<^verbatim>\<open>[0-9]+/[0-9]+\s?\*\<close>, and line 102, the pattern
  \<^verbatim>\<open>[-+]?[0-9]+\.[0-9]+\s?\*\<close>: what is left of the input after each match that
  starts at its head, in backtracking order.
\<close>

definition fraction_at :: "string \<Rightarrow> string list" where
  "fraction_at s =
     List.bind (rx_plus is_digit s) (\<lambda>(num, s1).
     List.bind (rx_lit CHR ''/'' s1) (\<lambda>(slash, s2).
     List.bind (rx_plus is_digit s2) (\<lambda>(den, s3).
     List.bind (rx_opt (rx_class is_space) s3) (\<lambda>(sp, s4).
     List.bind (rx_lit CHR ''*'' s4) (\<lambda>(star, s5).
       [s5])))))"

definition decimal_at :: "string \<Rightarrow> string list" where
  "decimal_at s =
     List.bind (rx_opt (rx_class (\<lambda>c. c = CHR ''-'' \<or> c = CHR ''+'')) s) (\<lambda>(sign, s1).
     List.bind (rx_plus is_digit s1) (\<lambda>(whole, s2).
     List.bind (rx_lit CHR ''.'' s2) (\<lambda>(point, s3).
     List.bind (rx_plus is_digit s3) (\<lambda>(frac, s4).
     List.bind (rx_opt (rx_class is_space) s4) (\<lambda>(sp, s5).
     List.bind (rx_lit CHR ''*'' s5) (\<lambda>(star, s6).
       [s6]))))))"

text \<open>
  \<^verbatim>\<open>re.sub(pattern, "", expr)\<close>: scanning from the left, a match is cut out and the
  scan goes on behind it; where nothing matches, the character is kept. \<open>m\<close> gives
  the rests after the matches at the head of its argument.
\<close>

function re_sub_empty :: "(string \<Rightarrow> string list) \<Rightarrow> string \<Rightarrow> string" where
  "re_sub_empty m [] = []"
| "re_sub_empty m (c # cs) =
     (case m (c # cs) of
        [] \<Rightarrow> c # re_sub_empty m cs
      | r # rs \<Rightarrow> if length r < length (c # cs) then re_sub_empty m r
                 else c # re_sub_empty m cs)"
  by pat_completeness auto
termination
  by (relation "measure (\<lambda>(m, s). length s)") auto

text \<open>Line 103: \<^verbatim>\<open>re.split(r"[+\-*]", expr)\<close>, the pieces between the operators.\<close>

fun re_split_ops :: "string \<Rightarrow> string list" where
  "re_split_ops [] = [[]]"
| "re_split_ops (c # cs) =
     (if c \<in> set ''+-*'' then [] # re_split_ops cs
      else (case re_split_ops cs of [] \<Rightarrow> [[c]] | e # es \<Rightarrow> (c # e) # es))"

definition clean_contrast_elements :: "string \<Rightarrow> string list" where
  "clean_contrast_elements expr =
     (let expr1 = re_sub_empty fraction_at expr;
          expr2 = re_sub_empty decimal_at expr1;
          elements = re_split_ops expr2
      in map (filter (\<lambda>c. c \<noteq> CHR ''('' \<and> c \<noteq> CHR '')'' \<and> \<not> is_space c)) elements)"

text \<open>
  Lines 93 and 94. The argument is a dict (its items in insertion order, the keys
  distinct), a list of formulas, or \<^verbatim>\<open>None\<close>. A list becomes the dict
  \<^verbatim>\<open>{k: k for k in formula_expr}\<close>; iterating \<^verbatim>\<open>None\<close> raises \<^verbatim>\<open>TypeError\<close>.
\<close>

datatype formula_arg =
    Formula_dict "(string \<times> string) list"
  | Formula_list "string list"
  | Formula_None

definition formula_items :: "formula_arg \<Rightarrow> py_error + (string \<times> string) list" where
  "formula_items formula_expr =
     (case formula_expr of
        Formula_dict d \<Rightarrow> Inr d
      | Formula_list ks \<Rightarrow> Inr (map (\<lambda>k. (k, k)) (rev (remdups (rev ks))))
      | Formula_None \<Rightarrow> Inl (TypeError ''NoneType object is not iterable''))"

text \<open>
  Line 107, \<^verbatim>\<open>contrast_elements\<close>; line 111, \<^verbatim>\<open>requires_backquotes\<close> (\<^verbatim>\<open>$\<close> also
  matches before a final newline); lines 113 and 118, the two filtered lists.
\<close>

definition contrast_elements :: "(string \<times> string) list \<Rightarrow> string list" where
  "contrast_elements items = concat (map (\<lambda>(k, f). clean_contrast_elements f) items)"

definition drop_final_newline :: "string \<Rightarrow> string" where
  "drop_final_newline s = (if s \<noteq> [] \<and> last s = CHR 0x0A then butlast s else s)"

definition requires_backquotes :: "string \<Rightarrow> bool" where
  "requires_backquotes element =
     (\<not> (drop_final_newline element \<noteq> [] \<and> list_all is_word_char (drop_final_newline element)))"

definition invalid_contrasts :: "(string \<times> string) list \<Rightarrow> string list \<Rightarrow> string list" where
  "invalid_contrasts items parameter_names =
     filter (\<lambda>e. requires_backquotes e \<and> e \<notin> set parameter_names) (contrast_elements items)"

definition missing_contrasts :: "(string \<times> string) list \<Rightarrow> string list \<Rightarrow> string list" where
  "missing_contrasts items parameter_names =
     filter (\<lambda>e. e \<notin> set parameter_names) (contrast_elements items)"

text \<open>
  Lines 123 to 128, \<^verbatim>\<open>escape_column_names\<close>: every column whose name is not matched by
  \<^verbatim>\<open>^[a-zA-Z_][a-zA-Z0-9_]*$\<close> is put between backticks wherever its name occurs in
  the formula. \<open>str_replace\<close> is Python's \<^verbatim>\<open>str.replace\<close>.
\<close>

definition is_identifier :: "string \<Rightarrow> bool" where
  "is_identifier col =
     (case drop_final_newline col of
        [] \<Rightarrow> False
      | c # cs \<Rightarrow> (is_alpha c \<or> c = CHR ''_'') \<and> list_all is_word_char cs)"

function str_replace_nonempty :: "string \<Rightarrow> string \<Rightarrow> string \<Rightarrow> string" where
  "str_replace_nonempty old new [] = []"
| "str_replace_nonempty old new (c # cs) =
     (if old \<noteq> [] \<and> take (length old) (c # cs) = old
      then new @ str_replace_nonempty old new (drop (length old) (c # cs))
      else c # str_replace_nonempty old new cs)"
  by pat_completeness auto
termination
  by (relation "measure (\<lambda>(old, new, s). length s)") auto

definition str_replace :: "string \<Rightarrow> string \<Rightarrow> string \<Rightarrow> string" where
  "str_replace old new s =
     (if old = [] then new @ concat (map (\<lambda>c. c # new) s) else str_replace_nonempty old new s)"

definition escape_column_names :: "string \<Rightarrow> string list \<Rightarrow> string" where
  "escape_column_names formula columns =
     foldl (\<lambda>f col. if \<not> is_identifier col then str_replace col (''`'' @ col @ ''`'') f else f)
           formula columns"

text \<open>
  The data frame \<^verbatim>\<open>x\<close> is a Python object that the function changes in place. The
  state holds the objects by address: \<open>heap\<close> maps an address to the frame stored
  there, a frame being its columns in order, name and content. \<open>stdout\<close> collects what
  \<^verbatim>\<open>print\<close> wrote: the warning of line 115 with its list, and the warning of line 139
  with the formula and the exception.
\<close>

datatype printed =
    Warning_backquotes "string list"
  | Warning_formula string py_error

record 'c py_state =
  heap :: "nat \<Rightarrow> (string \<times> 'c) list"
  stdout :: "printed list"

text \<open>\<^verbatim>\<open>df[column_name] = col\<close>: an existing column is replaced, a new one is appended.\<close>

definition set_column :: "string \<Rightarrow> 'c \<Rightarrow> (string \<times> 'c) list \<Rightarrow> (string \<times> 'c) list" where
  "set_column column_name col df =
     (if column_name \<in> set (map fst df)
      then map (\<lambda>(n, c). if n = column_name then (n, col) else (n, c)) df
      else df @ [(column_name, col)])"

text \<open>The cells of the columns of a frame that carry a given name.\<close>

definition column_cells :: "string \<Rightarrow> (string \<times> 'c) list \<Rightarrow> 'c list" where
  "column_cells column_name df = map snd (filter (\<lambda>p. fst p = column_name) df)"

text \<open>
  Lines 131 to 140, \<^verbatim>\<open>mutate_with_formula\<close>. \<^verbatim>\<open>df.eval\<close> belongs to pandas: the
  argument \<open>pd_eval\<close> gives, for the frame as it is and the escaped formula, the column
  that line 135 assigns, or the exception that \<^verbatim>\<open>eval\<close> or the assignment raises.
  The function returns \<^verbatim>\<open>df\<close>, the address it was given.
\<close>

definition mutate_with_formula ::
  "((string \<times> 'c) list \<Rightarrow> string \<Rightarrow> py_error + 'c) \<Rightarrow> string list \<Rightarrow> bool \<Rightarrow>
   nat \<Rightarrow> string \<Rightarrow> string \<Rightarrow> 'c py_state \<Rightarrow> (py_error + nat) \<times> 'c py_state" where
  "mutate_with_formula pd_eval parameter_names ignore_errors df column_name formula st =
     (let formula' = escape_column_names formula parameter_names in
      case pd_eval (heap st df) formula' of
        Inr col \<Rightarrow>
          (Inr df, st\<lparr>heap := (heap st)(df := set_column column_name col (heap st df))\<rparr>)
      | Inl e \<Rightarrow>
          if \<not> ignore_errors then (Inl e, st)
          else (Inr df, st\<lparr>stdout := stdout st @ [Warning_formula formula' e]\<rparr>))"

text \<open>Lines 142 and 143: the loop over the items, \<^verbatim>\<open>x\<close> rebound to what the call returns.\<close>

fun mutate_loop ::
  "((string \<times> 'c) list \<Rightarrow> string \<Rightarrow> py_error + 'c) \<Rightarrow> string list \<Rightarrow> bool \<Rightarrow>
   nat \<Rightarrow> (string \<times> string) list \<Rightarrow> 'c py_state \<Rightarrow> (py_error + nat) \<times> 'c py_state" where
  "mutate_loop pd_eval parameter_names ignore_errors x [] st = (Inr x, st)"
| "mutate_loop pd_eval parameter_names ignore_errors x ((new_col, formula) # rest) st =
     (case mutate_with_formula pd_eval parameter_names ignore_errors x new_col formula st of
        (Inl e, st') \<Rightarrow> (Inl e, st')
      | (Inr x', st') \<Rightarrow> mutate_loop pd_eval parameter_names ignore_errors x' rest st')"

text \<open>Lines 113 to 115: the warning about elements that need backquotes.\<close>

definition print_invalid_contrasts ::
  "(string \<times> string) list \<Rightarrow> string list \<Rightarrow> 'c py_state \<Rightarrow> 'c py_state" where
  "print_invalid_contrasts items parameter_names st =
     (if invalid_contrasts items parameter_names \<noteq> []
      then st\<lparr>stdout := stdout st @ [Warning_backquotes (invalid_contrasts items parameter_names)]\<rparr>
      else st)"

text \<open>
  The function: \<^verbatim>\<open>x\<close> is the address of the caller's frame, the result the address
  returned or the exception, together with the state the call leaves behind.
\<close>

definition mutate_from_expr_list ::
  "((string \<times> 'c) list \<Rightarrow> string \<Rightarrow> py_error + 'c) \<Rightarrow> nat \<Rightarrow> formula_arg \<Rightarrow> bool \<Rightarrow>
   'c py_state \<Rightarrow> (py_error + nat) \<times> 'c py_state" where
  "mutate_from_expr_list pd_eval x formula_expr ignore_errors st =
     (case formula_items formula_expr of
        Inl e \<Rightarrow> (Inl e, st)
      | Inr items \<Rightarrow>
          (let parameter_names = map fst (heap st x);
               st1 = print_invalid_contrasts items parameter_names st
           in if missing_contrasts items parameter_names \<noteq> [] \<and> \<not> ignore_errors
              then (Inl (ValueError_missing_contrasts (missing_contrasts items parameter_names)), st1)
              else mutate_loop pd_eval parameter_names ignore_errors x items st1))"

text \<open>
  A concrete table and a concrete \<^verbatim>\<open>eval\<close> for the examples: columns of integers, and
  an evaluator that knows the formulas \<^verbatim>\<open>a\<close> (the column \<^verbatim>\<open>a\<close>) and \<^verbatim>\<open>a + a\<close> and
  raises on every other formula.
\<close>

definition lookup_column :: "(string \<times> 'c) list \<Rightarrow> string \<Rightarrow> py_error + 'c" where
  "lookup_column df name =
     (case map_of df name of None \<Rightarrow> Inl (KeyError [name]) | Some col \<Rightarrow> Inr col)"

definition toy_eval :: "(string \<times> int list) list \<Rightarrow> string \<Rightarrow> py_error + int list" where
  "toy_eval df formula =
     (if formula = ''a'' then lookup_column df ''a''
      else if formula = ''a + a''
      then (case lookup_column df ''a'' of Inl e \<Rightarrow> Inl e | Inr col \<Rightarrow> Inr (map (\<lambda>v. v + v) col))
      else Inl (ValueError ''unsupported formula''))"

definition toy_state :: "int list py_state" where
  "toy_state = \<lparr>heap = (\<lambda>r. if r = 0 then [(''a'', [1, 2])] else []), stdout = []\<rparr>"

section \<open>Summary Reshaper: \<^verbatim>\<open>summary_to_tibble\<close>\<close>

text \<open>
  A cell of the table the function returns: a string (the split name), a statistic,
  NaN, or \<^verbatim>\<open>None\<close> (the padding of a short row). A table is its columns in order,
  each a name and its cells; the column names of a frame are distinct.
\<close>

datatype 'v scell = SStr string | SNum 'v | SNaN | SNone

definition stat_cell :: "'v option \<Rightarrow> 'v scell" where
  "stat_cell c = (case c of None \<Rightarrow> SNaN | Some v \<Rightarrow> SNum v)"

text \<open>Line 54: the rows whose index contains \<^verbatim>\<open>par\<close>; \<open>keep\<close> says which rows stay.\<close>

definition filter_rows :: "bool list \<Rightarrow> 'a list \<Rightarrow> 'a list" where
  "filter_rows keep col = map snd (filter fst (zip keep col))"

text \<open>
  Line 60, \<^verbatim>\<open>filtered_summary[columns_to_keep]\<close>: pandas raises \<^verbatim>\<open>KeyError\<close> with the
  labels that are not columns of the frame.
\<close>

definition select_columns ::
  "string list \<Rightarrow> (string \<times> 'a) list \<Rightarrow> py_error + (string \<times> 'a) list" where
  "select_columns labels cols =
     (if filter (\<lambda>l. l \<notin> set (map fst cols)) labels \<noteq> []
      then Inl (KeyError (filter (\<lambda>l. l \<notin> set (map fst cols)) labels))
      else Inr (concat (map (\<lambda>l. case map_of cols l of None \<Rightarrow> [] | Some col \<Rightarrow> [(l, col)])
                            labels)))"

text \<open>
  Lines 66 to 72, \<^verbatim>\<open>split_variable_name\<close>: \<^verbatim>\<open>re.split(r"\[|\]|,|\s", var_name)\<close>,
  the empty pieces removed, the first three pieces kept if \<^verbatim>\<open>y\<close> is given (and not
  empty), the first two otherwise.
\<close>

fun re_split_name :: "string \<Rightarrow> string list" where
  "re_split_name [] = [[]]"
| "re_split_name (c # cs) =
     (if c = CHR ''['' \<or> c = CHR '']'' \<or> c = CHR '','' \<or> is_space c then [] # re_split_name cs
      else (case re_split_name cs of [] \<Rightarrow> [[c]] | e # es \<Rightarrow> (c # e) # es))"

definition truthy_name :: "string option \<Rightarrow> bool" where
  "truthy_name y = (case y of None \<Rightarrow> False | Some s \<Rightarrow> s \<noteq> [])"

definition split_variable_name :: "string option \<Rightarrow> string \<Rightarrow> string list" where
  "split_variable_name y var_name =
     (let parts = filter (\<lambda>p. p \<noteq> []) (re_split_name var_name)
      in if truthy_name y then take 3 parts else take 2 parts)"

text \<open>
  Line 76, \<^verbatim>\<open>pd.DataFrame(rows, columns=names)\<close> on a list of lists: the rows are padded
  with \<^verbatim>\<open>None\<close> to the longest one, and pandas raises \<^verbatim>\<open>ValueError\<close> unless that
  length is the number of names. No rows give the empty frame with these columns.
\<close>

definition frame_of_lists ::
  "string list list \<Rightarrow> string list \<Rightarrow> py_error + (string \<times> 'v scell list) list" where
  "frame_of_lists rows names =
     (if rows = [] then Inr (map (\<lambda>n. (n, [])) names)
      else if fold max (map length rows) 0 \<noteq> length names
      then Inl (ValueError ''columns passed do not match the data'')
      else Inr (map (\<lambda>(j, n). (n, map (\<lambda>r. if j < length r then SStr (r ! j) else SNone) rows))
                    (zip [0 ..< length names] names)))"

text \<open>Lines 81 to 84: a column of NaN, if the frame has no column of that name.\<close>

definition add_missing_column ::
  "string \<Rightarrow> nat \<Rightarrow> (string \<times> 'v scell list) list \<Rightarrow> (string \<times> 'v scell list) list" where
  "add_missing_column name n frame =
     (if name \<notin> set (map fst frame) then frame @ [(name, replicate n SNaN)] else frame)"

text \<open>
  The function. \<^verbatim>\<open>str.contains(par)\<close> (line 54) is a regular-expression search:
  pandas compiles the pattern once, whatever the number of rows, and searches every
  index entry. \<^verbatim>\<open>f"{p}%"\<close> is the decimal numeral of \<open>p\<close> followed by the percent
  sign.
\<close>

definition summary_to_tibble ::
  "regex_engine \<Rightarrow> 'v fit \<Rightarrow> string \<Rightarrow> string \<Rightarrow> string option \<Rightarrow> nat list \<Rightarrow>
   py_error + (string \<times> 'v scell list) list" where
  "summary_to_tibble rx fit par x y probs =
     ebind (summary fit probs) (\<lambda>summ.
     ebind (rx par) (\<lambda>found.
       let keep = map found (sm_index summ);
           filtered_index = filter_rows keep (sm_index summ);
           filtered_cols = map (\<lambda>(n, col). (n, filter_rows keep col)) (sm_cols summ);
           prob_cols = map (\<lambda>p. decimal p @ ''%'') probs;
           columns_to_keep = [''Mean''] @ prob_cols @ [''N_Eff'', ''R_hat'']
       in ebind (select_columns columns_to_keep filtered_cols) (\<lambda>kept.
          ebind (frame_of_lists (map (split_variable_name y) filtered_index)
                   ([''variable'', x] @ (case y of None \<Rightarrow> [] | Some s \<Rightarrow> if s \<noteq> [] then [s] else [])))
            (\<lambda>split_df.
            Inr (add_missing_column ''R_hat'' (length filtered_index)
                  (add_missing_column ''N_Eff'' (length filtered_index)
                    (split_df @ map (\<lambda>(n, col). (n, map stat_cell col)) kept)))))))"

section \<open>Orchestrator: \<^verbatim>\<open>get_abundance_contrast_draws\<close>\<close>

text \<open>
  The argument \<^verbatim>\<open>data\<close> is a dict; \<open>None\<close> stands for a key that is absent or bound
  to \<^verbatim>\<open>None\<close>, which the source does not tell apart, except for \<^verbatim>\<open>n_random_eff\<close>:
  \<^verbatim>\<open>model_input.get('n_random_eff', 0)\<close> is 0 for an absent key, and \<^verbatim>\<open>None\<close> for a
  key bound to \<^verbatim>\<open>None\<close>, on which the comparison of line 173 raises \<^verbatim>\<open>TypeError\<close>.
  Of a design matrix only its column labels are read.
\<close>

datatype 'a dict_entry = Key_absent | Bound_to_None | Bound_to 'a

record model_input_t =
  X_columns :: "string list option"
  n_random_eff :: "int dict_entry"
  X_random_effect :: "string list option"
  X_random_effect_2 :: "string list option"

record 'v data_t =
  cell_group :: "string option"
  model_input :: "model_input_t option"
  fit_of :: "'v fit option"

text \<open>
  The label of a row in the index of a frame: its position, after \<^verbatim>\<open>reset_index\<close>, or
  the triple \<^verbatim>\<open>(chain__, iter__, draw__)\<close>, after the pivot of lines 184 and 200.

  The wide frame \<^verbatim>\<open>draws\<close>: the identifier columns it got from \<^verbatim>\<open>reset_index\<close>, by
  name, then the value columns by name; a row is its label, its identifier cells and
  its value cells, \<open>None\<close> for NaN. A random-effect matrix, as lines 184 and 185 leave
  it, has value columns only.
\<close>

datatype row_label = Position nat | Draw_label int int int

record 'v wide_df =
  id_names :: "string list"
  value_names :: "string list"
  wide_rows :: "(row_label \<times> (int \<times> int \<times> int \<times> int) \<times> 'v option list) list"

record 'v matrix_df =
  matrix_names :: "string list"
  matrix_rows :: "(row_label \<times> 'v option list) list"

text \<open>
  Lines 186 and 202, \<^verbatim>\<open>draws.merge(m, left_index=True, right_index=True,
  how='left')\<close>: a left join on the row labels, labels compared by equality. Every
  row of \<^verbatim>\<open>draws\<close>, in order, is paired with each row of \<^verbatim>\<open>m\<close> that has its label,
  and with NaN cells if there is none. The call passes no \<^verbatim>\<open>validate\<close> argument and
  nothing around it compares row counts, so the join has no failing branch. (The
  column names of the two frames are taken to differ.)
\<close>

definition merge_left_index :: "'v wide_df \<Rightarrow> 'v matrix_df \<Rightarrow> 'v wide_df" where
  "merge_left_index left right =
     left\<lparr>value_names := value_names left @ matrix_names right,
          wide_rows :=
            concat (map (\<lambda>(l, ids, cells).
                      case filter (\<lambda>(l', cs). l' = l) (matrix_rows right) of
                        [] \<Rightarrow> [(l, ids, cells @ replicate (length (matrix_names right)) None)]
                      | m # ms \<Rightarrow> map (\<lambda>(l', cs). (l, ids, cells @ cs)) (m # ms))
                    (wide_rows left))\<rparr>"

text \<open>
  Line 163, \<^verbatim>\<open>beta.pivot(index=['chain__', 'iter__', 'draw__', 'variable', 'M'],
  columns='C', values='value')\<close>, for a table of the Draw Reshaper called with
  \<^verbatim>\<open>x = "C"\<close> and \<^verbatim>\<open>y = "M"\<close>: pandas raises \<^verbatim>\<open>ValueError\<close> when two rows share
  index and column; the result has the distinct index tuples in ascending order as
  rows and the distinct \<^verbatim>\<open>C\<close> in ascending order as columns.
\<close>

definition pivot_index :: "'v draw_row \<Rightarrow> int \<times> int \<times> int \<times> string \<times> int" where
  "pivot_index r = (chain_id r, iteration r, draw r, variable r, idx_y r)"

definition pivot ::
  "'v draw_row list \<Rightarrow>
   py_error + (int list \<times> ((int \<times> int \<times> int \<times> string \<times> int) \<times> 'v option list) list)" where
  "pivot rows =
     (if \<not> distinct (map (\<lambda>r. (pivot_index r, idx_x r)) rows)
      then Inl (ValueError ''Index contains duplicate entries, cannot reshape'')
      else
        (let cols = sort (remdups (map idx_x rows));
             index = sort (remdups (map pivot_index rows))
         in Inr (cols,
                 map (\<lambda>i. (i, map (\<lambda>c. map_of (map (\<lambda>r. ((pivot_index r, idx_x r), val r)) rows)
                                             (i, c)) cols))
                     index)))"

text \<open>
  Lines 162 to 168, the primary matrix, for the fit and the labels of line 161. Line 164 raises \<^verbatim>\<open>ValueError\<close> when the number
  of labels is not the number of columns; \<^verbatim>\<open>reset_index\<close> (line 165) raises when a
  label is the name of an index level; line 168 drops \<^verbatim>\<open>variable\<close>.
\<close>

definition primary_matrix ::
  "regex_engine \<Rightarrow> 'v fit \<Rightarrow> string list \<Rightarrow> py_error + 'v wide_df" where
  "primary_matrix rx fit beta_factor_of_interest =
     ebind (draws_to_tibble_x_y rx fit ''beta'') (\<lambda>beta.
     ebind (pivot beta) (\<lambda>(cols, rows).
       if length beta_factor_of_interest \<noteq> length cols
       then Inl (ValueError ''Length mismatch'')
       else if filter (\<lambda>n. n \<in> set beta_factor_of_interest)
                 [''chain__'', ''iter__'', ''draw__'', ''variable'', ''M''] \<noteq> []
       then Inl (ValueError ''cannot insert, already exists'')
       else Inr \<lparr>id_names = [''chain__'', ''iter__'', ''draw__'', ''M''],
                 value_names = beta_factor_of_interest,
                 wide_rows = map (\<lambda>(p, ((c, i, d, v, m), cells)). (Position p, (c, i, d, m), cells))
                                 (zip [0 ..< length rows] rows)\<rparr>))"

text \<open>
  The columns of the table that the Draw Reshaper returns (line 40), and
  \<^verbatim>\<open>df.groupby(keys)[col]\<close> on a frame with these columns: \<^verbatim>\<open>KeyError\<close> for a key
  that is not a column, and \<^verbatim>\<open>KeyError\<close> ("Column not found") for a selected column
  that is not one.
\<close>

definition reshaper_columns :: "string \<Rightarrow> string \<Rightarrow> string list" where
  "reshaper_columns x y = [''chain__'', ''iter__'', ''draw__'', ''variable'', x, y, ''value'']"

definition groupby_getitem :: "string list \<Rightarrow> string list \<Rightarrow> string \<Rightarrow> py_error + unit" where
  "groupby_getitem columns keys col =
     (case filter (\<lambda>k. k \<notin> set columns) keys of
        k # ks \<Rightarrow> Inl (KeyError [k])
      | [] \<Rightarrow> if col \<in> set columns then Inr () else Inl (KeyError [''Column not found: '' @ col]))"

text \<open>
  The names \<^verbatim>\<open>TRUE\<close> (line 207) and \<^verbatim>\<open>y\<close> (line 210) are neither parameters nor
  local variables: they are read from the module's namespace, and reading a name that
  is not bound raises \<^verbatim>\<open>NameError\<close>. \<open>py_globals\<close> holds what the namespace binds
  these two names to, \<open>None\<close> for a name it does not bind. The module as it is binds
  \<^verbatim>\<open>pd\<close>, \<^verbatim>\<open>re\<close>, \<^verbatim>\<open>np\<close>, \<^verbatim>\<open>reduce\<close> and its four functions, and neither
  \<^verbatim>\<open>TRUE\<close> nor \<^verbatim>\<open>y\<close> (and they are no builtins): \<open>module_globals\<close>.
\<close>

record 'y py_globals =
  global_TRUE :: "bool option"
  global_y :: "'y option"

definition module_globals :: "'y py_globals" where
  "module_globals = \<lparr>global_TRUE = None, global_y = None\<rparr>"

definition read_global :: "string \<Rightarrow> 'a option \<Rightarrow> py_error + 'a" where
  "read_global name binding =
     (case binding of None \<Rightarrow> Inl (NameError name) | Some v \<Rightarrow> Inr v)"

text \<open>
  The statements that no call reaches are arguments of the model, so that what is
  proved holds whatever they do: lines 179 to 185, which build the random-effect
  matrix (given the labels of line 174 and the reshaped random effect), lines 195 to
  201, the call of line 207 once \<^verbatim>\<open>TRUE\<close> has a value, and lines 211 to 225 once
  \<^verbatim>\<open>y\<close> has one.
\<close>

record ('v, 'y, 'r) unreached =
  lines_179_185 :: "string list \<Rightarrow> 'v draw_row list \<Rightarrow> py_error + 'v matrix_df"
  lines_195_201 :: "string list \<Rightarrow> 'v draw_row list \<Rightarrow> py_error + 'v matrix_df"
  line_207 :: "bool \<Rightarrow> 'v wide_df \<Rightarrow> formula_arg \<Rightarrow> py_error + 'v wide_df"
  lines_210_225 :: "'y \<Rightarrow> 'v wide_df \<Rightarrow> py_error + 'r"

text \<open>
  Lines 174 to 186 and 190 to 202: the two random-effect blocks. The labels are the
  columns of the group's design matrix, or none if the model has no such matrix.
\<close>

definition labels_of :: "string list option \<Rightarrow> string list" where
  "labels_of design = (case design of None \<Rightarrow> [] | Some cols \<Rightarrow> cols)"

definition random_effect_block ::
  "('v, 'y, 'r) unreached \<Rightarrow> regex_engine \<Rightarrow> 'v fit \<Rightarrow> string list \<Rightarrow> 'v wide_df \<Rightarrow>
   py_error + 'v wide_df" where
  "random_effect_block u rx fit beta_random_effect_factor_of_interest draws =
     ebind (draws_to_tibble_x_y rx fit ''random_effect'') (\<lambda>beta_random_effect.
     ebind (groupby_getitem (reshaper_columns ''C'' ''M'')
              [''C'', ''chain__'', ''iter__'', ''draw__'', ''variable''] ''.value'') (\<lambda>selected.
     ebind (lines_179_185 u beta_random_effect_factor_of_interest beta_random_effect)
       (\<lambda>beta_random_effect. Inr (merge_left_index draws beta_random_effect))))"

definition random_effect_block_2 ::
  "('v, 'y, 'r) unreached \<Rightarrow> regex_engine \<Rightarrow> 'v fit \<Rightarrow> string list \<Rightarrow> 'v wide_df \<Rightarrow>
   py_error + 'v wide_df" where
  "random_effect_block_2 u rx fit beta_random_effect_factor_of_interest_2 draws =
     ebind (draws_to_tibble_x_y rx fit ''random_effect_2'') (\<lambda>beta_random_effect_2.
     ebind (groupby_getitem (reshaper_columns ''C'' ''M'')
              [''C'', ''chain__'', ''iter__'', ''draw__'', ''.variable''] ''value'') (\<lambda>selected.
     ebind (lines_195_201 u beta_random_effect_factor_of_interest_2 beta_random_effect_2)
       (\<lambda>beta_random_effect_2. Inr (merge_left_index draws beta_random_effect_2))))"

text \<open>\<^verbatim>\<open>if contrasts:\<close> (line 206): \<^verbatim>\<open>None\<close>, an empty dict and an empty list are false.\<close>

definition truthy_contrasts :: "formula_arg \<Rightarrow> bool" where
  "truthy_contrasts contrasts =
     (case contrasts of
        Formula_dict d \<Rightarrow> d \<noteq> []
      | Formula_list ks \<Rightarrow> ks \<noteq> []
      | Formula_None \<Rightarrow> False)"

text \<open>
  The function, run in a namespace \<open>g\<close>. Line 161 raises \<^verbatim>\<open>AttributeError\<close> when
  \<^verbatim>\<open>model_input\<close> or its \<^verbatim>\<open>X\<close> is \<^verbatim>\<open>None\<close>, and so does the first use of a fit
  that is absent. Line 173 raises \<^verbatim>\<open>TypeError\<close> when \<^verbatim>\<open>n_random_eff\<close> is \<^verbatim>\<open>None\<close>.
\<close>

definition get_abundance_contrast_draws ::
  "regex_engine \<Rightarrow> ('v, 'y, 'r) unreached \<Rightarrow> 'y py_globals \<Rightarrow> 'v data_t \<Rightarrow> formula_arg \<Rightarrow>
   py_error + 'r" where
  "get_abundance_contrast_draws rx u g data contrasts =
     (case model_input data of
        None \<Rightarrow> Inl (AttributeError ''get'')
      | Some mi \<Rightarrow>
     (case X_columns mi of
        None \<Rightarrow> Inl (AttributeError ''columns'')
      | Some beta_factor_of_interest \<Rightarrow>
     (case fit_of data of
        None \<Rightarrow> Inl (AttributeError ''stan_variables'')
      | Some fit \<Rightarrow>
     ebind (primary_matrix rx fit beta_factor_of_interest) (\<lambda>draws.
     ebind (case n_random_eff mi of
              Key_absent \<Rightarrow> Inr 0
            | Bound_to_None \<Rightarrow> Inl (TypeError ''> not supported between NoneType and int'')
            | Bound_to k \<Rightarrow> Inr k) (\<lambda>n.
     ebind (if n > 0 then random_effect_block u rx fit (labels_of (X_random_effect mi)) draws
            else Inr draws) (\<lambda>draws.
     ebind (if n > 1 then random_effect_block_2 u rx fit (labels_of (X_random_effect_2 mi)) draws
            else Inr draws) (\<lambda>draws.
     ebind (if truthy_contrasts contrasts
            then ebind (read_global ''TRUE'' (global_TRUE g))
                   (\<lambda>true. line_207 u true draws contrasts)
            else Inr draws) (\<lambda>draws.
     ebind (read_global ''y'' (global_y g)) (\<lambda>y.
       lines_210_225 u y draws)))))))))"

text \<open>
  Lines 216 to 225, as a function of what they read: the fit, \<^verbatim>\<open>cell_group\<close> and the
  frame \<^verbatim>\<open>draws\<close> (its columns in order, name and cells). The result is what the
  function returns from there: \<open>Some\<close> the rows of
  \<^verbatim>\<open>draws[[cell_group, 'M']].drop_duplicates()\<close> at line 218, and \<open>None\<close>, Python's
  \<^verbatim>\<open>None\<close>, where the body ends after line 225 without a \<^verbatim>\<open>return\<close>.
\<close>

definition drop_duplicates :: "'a list \<Rightarrow> 'a list" where
  "drop_duplicates rows = rev (remdups (rev rows))"

definition rename_column :: "string \<Rightarrow> string \<Rightarrow> (string \<times> 'a) list \<Rightarrow> (string \<times> 'a) list" where
  "rename_column old new frame = map (\<lambda>(n, col). (if n = old then new else n, col)) frame"

definition lines_216_225 ::
  "regex_engine \<Rightarrow> 'v fit \<Rightarrow> string option \<Rightarrow> (string \<times> 'c list) list \<Rightarrow>
   py_error + ('c \<times> 'c) list option" where
  "lines_216_225 rx fit cell_group_name draws =
     (if length draws \<le> 5
      then (case cell_group_name of
              None \<Rightarrow> Inl (KeyError [''None''])
            | Some cg \<Rightarrow>
                ebind (select_columns [cg, ''M''] draws) (\<lambda>sel.
                  Inr (Some (drop_duplicates
                    (case sel of (a, c1) # (b, c2) # rest \<Rightarrow> zip c1 c2 | _ \<Rightarrow> [])))))
      else ebind (summary_to_tibble rx fit ''beta'' ''C'' (Some ''M'') [5, 25, 50, 75, 95])
             (\<lambda>convergence_df.
               let convergence_df =
                     (if ''Rhat'' \<in> set (map fst convergence_df)
                      then rename_column ''Rhat'' ''R_k_hat'' convergence_df
                      else if ''khat'' \<in> set (map fst convergence_df)
                      then rename_column ''khat'' ''R_k_hat'' convergence_df
                      else convergence_df)
               in Inr None))"

section \<open>A concrete engine\<close>

text \<open>
  A fit for the concrete inputs below. The inference engine is an external library;
  the spec (section 6) gives its interface: the draws table of the variables asked
  for, with the three identifier columns; the variable names; the summary table
  indexed by parameter name. \<open>engine_fit\<close> builds such a fit from a table of all draws
  and a summary table: a draw column belongs to the variable named before its
  \<^verbatim>\<open>[\<close>, and asking for an unknown variable raises. No theorem about the source
  depends on it, except at these inputs.
\<close>

definition column_variable :: "string \<Rightarrow> string" where
  "column_variable name = takeWhile (\<lambda>c. c \<noteq> CHR ''['') name"

definition engine_fit :: "'v draws_df \<Rightarrow> 'v summary_df \<Rightarrow> 'v fit" where
  "engine_fit table summ =
     \<lparr>stan_variables = remdups (map (\<lambda>(name, vals). column_variable name) (df_cols table)),
      draws_pd = (\<lambda>vars.
        if list_all (\<lambda>v. v \<in> set [''chain__'', ''iter__'', ''draw__'']
                            \<or> v \<in> set (map (\<lambda>(name, vals). column_variable name) (df_cols table)))
                    vars
        then Inr (table\<lparr>df_cols :=
                    filter (\<lambda>(name, vals). column_variable name \<in> set vars) (df_cols table)\<rparr>)
        else Inl (EngineError ''unknown variable'')),
      summary = (\<lambda>probs. Inr summ)\<rparr>"

definition no_summary :: "int summary_df" where
  "no_summary = \<lparr>sm_index = [], sm_cols = []\<rparr>"

text \<open>
  Two chains of two iterations, a 1 x 2 matrix \<^verbatim>\<open>beta\<close> and a 1 x 1 matrix
  \<^verbatim>\<open>random_effect\<close>; the rows are listed with the chains interleaved.
\<close>

definition two_chain_table :: "int draws_df" where
  "two_chain_table =
     \<lparr>df_ids = [(2, 1, 3), (1, 1, 1), (2, 2, 4), (1, 2, 2)],
      df_cols = [(''beta[1,1]'', [30, 10, 40, 20]),
                 (''beta[1,2]'', [31, 11, 41, 21]),
                 (''random_effect[1,1]'', [7, 8, 9, 6])]\<rparr>"

definition two_chain_fit :: "int fit" where
  "two_chain_fit = engine_fit two_chain_table no_summary"

definition two_chain_beta :: "int draws_df" where
  "two_chain_beta =
     \<lparr>df_ids = [(2, 1, 3), (1, 1, 1), (2, 2, 4), (1, 2, 2)],
      df_cols = [(''beta[1,1]'', [30, 10, 40, 20]),
                 (''beta[1,2]'', [31, 11, 41, 21])]\<rparr>"

definition mk_row :: "int \<Rightarrow> int \<Rightarrow> int \<Rightarrow> string \<Rightarrow> int \<Rightarrow> int \<Rightarrow> 'v \<Rightarrow> 'v draw_row" where
  "mk_row c i d v x y a =
     \<lparr>chain_id = c, iteration = i, draw = d, variable = v, idx_x = x, idx_y = y, val = a\<rparr>"

definition two_chain_long :: "int draw_row list" where
  "two_chain_long =
     [mk_row 2 1 3 ''beta'' 1 1 30, mk_row 1 1 1 ''beta'' 1 1 10,
      mk_row 2 2 4 ''beta'' 1 1 40, mk_row 1 2 2 ''beta'' 1 1 20,
      mk_row 2 1 3 ''beta'' 1 2 31, mk_row 1 1 1 ''beta'' 1 2 11,
      mk_row 2 2 4 ''beta'' 1 2 41, mk_row 1 2 2 ''beta'' 1 2 21]"

text \<open>A fit whose \<^verbatim>\<open>beta\<close> is a vector: its draw columns carry one index only.\<close>

definition vector_table :: "int draws_df" where
  "vector_table =
     \<lparr>df_ids = [(1, 1, 1)],
      df_cols = [(''beta[1]'', [5]), (''beta[2]'', [6])]\<rparr>"

definition vector_fit :: "int fit" where
  "vector_fit = engine_fit vector_table no_summary"

text \<open>A fit with one well-formed column and one column without a second index.\<close>

definition mixed_table :: "int draws_df" where
  "mixed_table =
     \<lparr>df_ids = [(1, 1, 1), (1, 2, 2)],
      df_cols = [(''beta[1,1]'', [5, 6]), (''beta[2]'', [7, 8])]\<rparr>"

definition mixed_fit :: "int fit" where
  "mixed_fit = engine_fit mixed_table no_summary"

text \<open>
  A summary of the engine with the mean and the five quantiles and no diagnostic
  columns, and a fit with it.
\<close>

definition plain_summary :: "int summary_df" where
  "plain_summary =
     \<lparr>sm_index = [''lp__'', ''beta[1,1]'', ''beta[1,2]''],
      sm_cols = [(''Mean'', [Some 0, Some 25, Some 26]),
                 (''5%'', [Some 0, Some 10, Some 11]),
                 (''25%'', [Some 0, Some 20, Some 21]),
                 (''50%'', [Some 0, Some 25, Some 26]),
                 (''75%'', [Some 0, Some 30, Some 31]),
                 (''95%'', [Some 0, Some 40, Some 41])]\<rparr>"

definition plain_summary_fit :: "int fit" where
  "plain_summary_fit = engine_fit two_chain_table plain_summary"

text \<open>
  Model descriptions for the fit of two chains: one fixed-effect label (\<^verbatim>\<open>beta\<close> has
  one \<^verbatim>\<open>C\<close>), with no, one and two random-effect groups.
\<close>

definition model_data :: "int \<Rightarrow> int data_t" where
  "model_data n =
     \<lparr>cell_group = Some ''cell_type'',
      model_input = Some \<lparr>X_columns = Some [''Intercept''], n_random_eff = Bound_to n,
                          X_random_effect = Some [''group''],
                          X_random_effect_2 = Some [''batch'']\<rparr>,
      fit_of = Some two_chain_fit\<rparr>"

text \<open>Some statements to stand for the unreached lines in a concrete call.\<close>

definition pass_through :: "(int, unit, unit) unreached" where
  "pass_through =
     \<lparr>lines_179_185 = (\<lambda>labels beta_random_effect. Inr \<lparr>matrix_names = [], matrix_rows = []\<rparr>),
      lines_195_201 = (\<lambda>labels beta_random_effect_2. Inr \<lparr>matrix_names = [], matrix_rows = []\<rparr>),
      line_207 = (\<lambda>true draws contrasts. Inr draws),
      lines_210_225 = (\<lambda>y draws. Inr ())\<rparr>"

text \<open>
  A summary with the diagnostic columns, and an assembled frame of six columns: the
  label, the four identifiers and one coefficient.
\<close>

definition full_summary :: "int summary_df" where
  "full_summary =
     \<lparr>sm_index = [''beta[1,1]''],
      sm_cols = [(''Mean'', [Some 25]), (''5%'', [Some 10]), (''25%'', [Some 20]),
                 (''50%'', [Some 25]), (''75%'', [Some 30]), (''95%'', [Some 40]),
                 (''N_Eff'', [Some 100]), (''R_hat'', [Some 1])]\<rparr>"

definition full_summary_fit :: "int fit" where
  "full_summary_fit = engine_fit two_chain_table full_summary"

definition six_columns :: "(string \<times> int list) list" where
  "six_columns =
     [(''cell_type'', [0, 0]), (''chain__'', [1, 1]), (''iter__'', [1, 2]),
      (''draw__'', [1, 2]), (''M'', [1, 1]), (''Intercept'', [10, 20])]"

text \<open>
  The regular-expression engine of the concrete inputs: it reads every pattern as
  plain text. That is Python's answer for the patterns these inputs use, which consist
  of letters and underscores.
\<close>

definition literal_engine :: regex_engine where
  "literal_engine pattern = Inr (str_contains pattern)"

text \<open>A frame of one chain whose two rows arrive with the later iteration first.\<close>

definition reversed_table :: "int draws_df" where
  "reversed_table =
     \<lparr>df_ids = [(1, 2, 1), (1, 1, 2)], df_cols = [(''beta[1,1]'', [20, 10])]\<rparr>"

definition reversed_fit :: "int fit" where
  "reversed_fit = engine_fit reversed_table no_summary"




section \<open>Decimal numerals and the index pattern\<close>

lemma digits_table:
  "list_all (\<lambda>d. is_digit (digit_char d) \<and> digit_val (digit_char d) = d) [0 ..< 10]"
  by code_simp

lemma digit_char_is_digit: "d < 10 \<Longrightarrow> is_digit (digit_char d)"
  using digits_table by (simp add: list_all_iff del: upt_Suc)

lemma digit_val_digit_char: "d < 10 \<Longrightarrow> digit_val (digit_char d) = d"
  using digits_table by (simp add: list_all_iff del: upt_Suc)

lemma decimal_digits: "\<forall>c \<in> set (decimal n). is_digit c"
proof (induction n rule: decimal.induct)
  case (1 n)
  show ?case
  proof (cases "n < 10")
    case True
    then show ?thesis by (subst decimal.simps) (simp add: digit_char_is_digit)
  next
    case False
    with 1 show ?thesis by (subst decimal.simps) (simp add: digit_char_is_digit)
  qed
qed

lemma decimal_nonempty: "decimal n \<noteq> []"
  by (subst decimal.simps) simp

lemma int_of_digits_snoc: "int_of_digits (s @ [c]) = 10 * int_of_digits s + digit_val c"
  by (simp add: int_of_digits_def)

lemma int_of_digits_decimal: "int_of_digits (decimal n) = n"
proof (induction n rule: decimal.induct)
  case (1 n)
  show ?case
  proof (cases "n < 10")
    case True
    then show ?thesis by (subst decimal.simps) (simp add: int_of_digits_def digit_val_digit_char)
  next
    case False
    with 1 show ?thesis
      by (subst decimal.simps) (simp add: int_of_digits_snoc digit_val_digit_char)
  qed
qed

lemma rx_plus_run:
  assumes "v \<noteq> []" "\<forall>c \<in> set v. P c" "\<not> P d"
  shows "\<exists>ms. rx_plus P (v @ d # rest) = (v, d # rest) # ms"
proof -
  have tw: "takeWhile P (v @ d # rest) = v"
    using assms by (simp add: takeWhile_append2)
  obtain k where k: "length v = Suc k" using assms(1) by (cases v) auto
  have "rev [1 ..< Suc (length v)] = length v # rev [1 ..< length v]"
    using k by simp
  then show ?thesis
    unfolding rx_plus_def tw by simp
qed

lemma rx_plus_end:
  assumes "v \<noteq> []" "\<forall>c \<in> set v. P c"
  shows "\<exists>ms. rx_plus P v = (v, []) # ms"
proof -
  have tw: "takeWhile P v = v" using assms by simp
  obtain k where k: "length v = Suc k" using assms(1) by (cases v) auto
  have "rev [1 ..< Suc (length v)] = length v # rev [1 ..< length v]"
    using k by simp
  then show ?thesis
    unfolding rx_plus_def tw by simp
qed

lemma rx_plus_none: "s = [] \<or> \<not> P (hd s) \<Longrightarrow> rx_plus P s = []"
  by (cases s) (auto simp: rx_plus_def)


lemma pattern_at_name:
  assumes v: "v \<noteq> []" "\<forall>c \<in> set v. is_var_char c"
    and h: "\<not> is_19 (hd v)" "hd v \<noteq> CHR ''.''"
    and dx: "dx \<noteq> []" "\<forall>c \<in> set dx. is_digit c"
    and dy: "dy \<noteq> []" "\<forall>c \<in> set dy. is_digit c"
    and rest: "rest = [] \<or> \<not> is_digit (hd rest)"
  shows "\<exists>ms. pattern_at (v @ CHR ''['' # dx @ CHR '','' # dy @ rest) = (None, v, dx, dy) # ms"
proof -
  let ?s = "v @ CHR ''['' # dx @ CHR '','' # dy @ rest"
  have hd_s: "hd ?s = hd v" using v(1) by simp
  have g1: "rx_opt (rx_plus is_19) ?s = [(None, ?s)]"
    using h(1) hd_s by (simp add: rx_opt_def rx_plus_none)
  have g2: "rx_opt (rx_lit CHR ''.'') ?s = [(None, ?s)]"
    using h(2) v(1) by (cases v) (simp_all add: rx_opt_def rx_lit_def)
  have "\<not> is_var_char CHR ''[''"
    by (simp add: is_var_char_def is_alpha_def is_digit_def)
  from rx_plus_run [OF v this]
  obtain m3 where g3: "rx_plus is_var_char ?s = (v, CHR ''['' # dx @ CHR '','' # dy @ rest) # m3"
    by blast
  have g4: "rx_lit CHR ''['' (CHR ''['' # dx @ CHR '','' # dy @ rest)
              = [(''['', dx @ CHR '','' # dy @ rest)]"
    by (simp add: rx_lit_def)
  have "\<not> is_digit CHR '',''" by (simp add: is_digit_def)
  from rx_plus_run [OF dx this]
  obtain m5 where g5: "rx_plus is_digit (dx @ CHR '','' # dy @ rest) = (dx, CHR '','' # dy @ rest) # m5"
    by blast
  have g6: "rx_lit CHR '','' (CHR '','' # dy @ rest) = [('','', dy @ rest)]"
    by (simp add: rx_lit_def)
  obtain m7 where g7: "rx_plus is_digit (dy @ rest) = (dy, rest) # m7"
  proof (cases rest)
    case Nil
    with rx_plus_end [OF dy] that show ?thesis by auto
  next
    case (Cons d ds)
    with rest have "\<not> is_digit d" by simp
    from rx_plus_run [OF dy this, of ds] Cons that show ?thesis by auto
  qed
  show ?thesis
    unfolding pattern_at_def g1
    by (simp add: g2 g3 g4 g5 g6 g7)
qed

lemma str_extract_name:
  assumes v: "v \<noteq> []" "\<forall>c \<in> set v. is_var_char c"
    and h: "\<not> is_19 (hd v)" "hd v \<noteq> CHR ''.''"
  shows "str_extract (v @ ''['' @ decimal r @ '','' @ decimal c @ '']'')
           = Some (None, v, decimal r, decimal c)"
proof -
  have "\<not> is_digit (hd '']'')" by (simp add: is_digit_def)
  then have "'']'' = [] \<or> \<not> is_digit (hd '']'')" by simp
  from pattern_at_name [OF v h decimal_nonempty decimal_digits decimal_nonempty decimal_digits this]
  obtain ms where ms: "pattern_at (v @ CHR ''['' # decimal r @ CHR '','' # decimal c @ '']'')
                         = (None, v, decimal r, decimal c) # ms"
    by blast
  obtain a as where va: "v = a # as" using v(1) by (cases v) auto
  show ?thesis using ms by (simp add: va)
qed


section \<open>Sorting and renumbering in the Draw Reshaper\<close>

lemma group_key_draw_update: "group_key (r\<lparr>draw := i\<rparr>) = group_key r"
  by (simp add: group_key_def)

lemma length_upto_nat: "length [1 .. int n] = n"
  by simp

lemma length_assign_draw: "length (assign_draw g) = length g"
  by (simp add: assign_draw_def)

lemma draw_assign_draw: "map draw (assign_draw g) = [1 .. int (length g)]"
proof -
  have "map draw (assign_draw g) = map snd (zip g [1 .. int (length g)])"
    by (simp add: assign_draw_def case_prod_unfold comp_def)
  also have "\<dots> = [1 .. int (length g)]"
    by (rule map_snd_zip) simp
  finally show ?thesis .
qed

lemma map_fst_zip_fun:
  "length xs = length ys \<Longrightarrow> map (\<lambda>p. h (fst p)) (zip xs ys) = map h xs"
  by (induction xs ys rule: list_induct2) simp_all

lemma map_assign_draw:
  assumes "\<And>r i. h (r\<lparr>draw := i\<rparr>) = h r"
  shows "map h (assign_draw g) = map h g"
proof -
  have "map h (assign_draw g) = map (\<lambda>p. h (fst p)) (zip g [1 .. int (length g)])"
    by (simp add: assign_draw_def case_prod_unfold assms comp_def)
  also have "\<dots> = map h g"
    by (rule map_fst_zip_fun) simp
  finally show ?thesis .
qed

lemma content_assign_draw: "map content (assign_draw g) = map content g"
  by (rule map_assign_draw) (simp add: content_def)

lemma filter_key_assign_draw:
  assumes "\<forall>r \<in> set g. group_key r = k'"
  shows "filter (\<lambda>r. group_key r = k) (assign_draw g) = (if k = k' then assign_draw g else [])"
proof -
  have "\<forall>r \<in> set (assign_draw g). group_key r = k'"
    using assms by (auto simp: assign_draw_def group_key_draw_update dest!: set_zip_leftD)
  then show ?thesis by (auto simp: filter_empty_conv)
qed

lemma filter_key_blocks:
  assumes "distinct ks"
  shows "filter (\<lambda>r. group_key r = k)
           (concat (map (\<lambda>k'. assign_draw (filter (\<lambda>r. group_key r = k') rows)) ks))
         = (if k \<in> set ks then assign_draw (filter (\<lambda>r. group_key r = k) rows) else [])"
  using assms
proof (induction ks)
  case Nil
  then show ?case by simp
next
  case (Cons a ks)
  have blk: "filter (\<lambda>r. group_key r = k) (assign_draw (filter (\<lambda>r. group_key r = a) rows))
               = (if k = a then assign_draw (filter (\<lambda>r. group_key r = a) rows) else [])"
    by (rule filter_key_assign_draw) simp
  from Cons show ?case by (auto simp: blk)
qed

lemma group_of_groupby_assign:
  "group_of k (groupby_assign rows) = assign_draw (group_of k rows)"
proof -
  have d: "distinct (sort (remdups (map group_key rows)))" by simp
  have "group_of k (groupby_assign rows)
          = (if k \<in> set (map group_key rows) then assign_draw (group_of k rows) else [])"
    unfolding group_of_def groupby_assign_def filter_key_blocks [OF d] by simp
  moreover have "k \<notin> set (map group_key rows) \<Longrightarrow> group_of k rows = []"
    by (auto simp: group_of_def filter_empty_conv)
  ultimately show ?thesis by (auto simp: assign_draw_def)
qed

lemma group_of_filter_variable:
  "group_of k (filter (\<lambda>r. variable r = par) rows) = (if fst k = par then group_of k rows else [])"
  by (cases k) (auto simp: group_of_def group_key_def filter_empty_conv intro: filter_cong)

lemma sorted_chain_of_group:
  assumes "sorted (map (\<lambda>r. (variable r, idx_x r, idx_y r, chain_id r)) ys)"
    and "\<forall>r \<in> set ys. group_key r = k"
  shows "sorted (map chain_id ys)"
proof -
  have "sorted_wrt (\<lambda>a b. (variable a, idx_x a, idx_y a, chain_id a)
                          \<le> (variable b, idx_x b, idx_y b, chain_id b)) ys"
    using assms(1) by (simp add: sorted_map)
  then have "sorted_wrt (\<lambda>a b. chain_id a \<le> chain_id b) ys"
  proof (rule sorted_wrt_mono_rel [rotated])
    fix a b assume "a \<in> set ys" "b \<in> set ys"
      and le: "(variable a, idx_x a, idx_y a, chain_id a) \<le> (variable b, idx_x b, idx_y b, chain_id b)"
    with assms(2) have "group_key a = group_key b" by simp
    then have "variable a = variable b" "idx_x a = idx_x b" "idx_y a = idx_y b"
      by (simp_all add: group_key_def)
    with le show "chain_id a \<le> chain_id b" by simp
  qed
  then show ?thesis by (simp add: sorted_map)
qed

lemma sort_key_group_of:
  "sort_key chain_id (group_of k rows) = group_of k (sort_values rows)"
proof (rule properties_for_sort_key)
  show "mset (group_of k (sort_values rows)) = mset (group_of k rows)"
    by (simp add: group_of_def sort_values_def)
next
  fix r assume "r \<in> set (group_of k (sort_values rows))"
  let ?key = "\<lambda>r::'a draw_row. (variable r, idx_x r, idx_y r, chain_id r)"
  obtain v x y where k: "k = (v, x, y)" by (cases k) auto
  have eq: "filter (\<lambda>x. chain_id r = chain_id x) (group_of k xs)
              = filter (\<lambda>a. ?key a = (v, x, y, chain_id r)) xs" for xs
    unfolding group_of_def filter_filter
    by (intro filter_cong) (auto simp: group_key_def k)
  show "filter (\<lambda>x. chain_id r = chain_id x) (group_of k (sort_values rows))
        = filter (\<lambda>x. chain_id r = chain_id x) (group_of k rows)"
    unfolding eq sort_values_def by (rule sort_key_stable)
next
  have "sorted (map (\<lambda>r. (variable r, idx_x r, idx_y r, chain_id r)) (group_of k (sort_values rows)))"
    unfolding group_of_def sort_values_def by (rule sorted_filter) simp
  then show "sorted (map chain_id (group_of k (sort_values rows)))"
    by (rule sorted_chain_of_group [where k = k]) (simp add: group_of_def)
qed

lemma sorted_lex_of_blocks:
  assumes "sorted (map f ys)" and "\<And>c. sorted (map g (filter (\<lambda>r. f r = c) ys))"
  shows "sorted (map (\<lambda>r. (f r, g r)) ys)"
  using assms
proof (induction ys)
  case Nil
  then show ?case by simp
next
  case (Cons y ys)
  have tail: "sorted (map g (filter (\<lambda>r. f r = c) ys))" for c
    using Cons.prems(2) [of c] by (cases "f y = c") simp_all
  have "sorted (map f ys)" using Cons.prems(1) by simp
  then have IH: "sorted (map (\<lambda>r. (f r, g r)) ys)" using tail by (rule Cons.IH)
  have "(f y, g y) \<le> (f z, g z)" if "z \<in> set ys" for z
  proof -
    have le: "f y \<le> f z" using Cons.prems(1) that by simp
    show ?thesis
    proof (cases "f y = f z")
      case True
      have "sorted (map g (filter (\<lambda>r. f r = f y) (y # ys)))" by (rule Cons.prems(2))
      then have "\<forall>b \<in> set (filter (\<lambda>r. f r = f y) ys). g y \<le> g b" by simp
      with that True have "g y \<le> g z" by simp
      with True show ?thesis by simp
    next
      case False
      with le have "f y < f z" by simp
      then show ?thesis by simp
    qed
  qed
  with IH show ?case by auto
qed
section \<open>Concrete frames and the conversion of the index columns\<close>

lemma two_chain_pd:
  "draws_pd two_chain_fit [''beta'', ''chain__'', ''iter__'', ''draw__''] = Inr two_chain_beta"
  by (simp add: two_chain_fit_def engine_fit_def two_chain_table_def two_chain_beta_def
      column_variable_def)

lemma two_chain_long_eq: "draws_long_of two_chain_beta = Inr two_chain_long"
  by code_simp


lemma emap_Inr_all: "emap f xs = Inr ys \<Longrightarrow> x \<in> set xs \<Longrightarrow> \<exists>y. f x = Inr y"
  by (induction xs arbitrary: ys) (auto split: sum.splits)

lemma emap_Inl_some: "emap f xs = Inl e \<Longrightarrow> \<exists>x \<in> set xs. f x = Inl e"
  by (induction xs) (auto split: sum.splits)

lemma emap_length: "emap f xs = Inr ys \<Longrightarrow> length ys = length xs"
  by (induction xs arbitrary: ys) (auto split: sum.splits)

lemma astype_int_errors:
  "astype_int cell = Inl e \<Longrightarrow>
     e = ValueError ''cannot convert float NaN to integer'' \<or> e = OverflowError"
  by (auto simp: astype_int_def split: option.splits if_splits)

lemma extract_indices_matched:
  assumes "extract_indices draws_long = Inr rows" and "r \<in> set draws_long"
  shows "str_extract (l_parameter r) \<noteq> None"
proof
  assume n: "str_extract (l_parameter r) = None"
  let ?ext = "map (\<lambda>r. str_extract (l_parameter r)) draws_long"
  from assms(1) obtain xs where xs: "emap astype_int (map x_capture ?ext) = Inr xs"
    by (auto simp: extract_indices_def ebind_def Let_def split: sum.splits)
  have "x_capture (str_extract (l_parameter r)) \<in> set (map x_capture ?ext)"
    using assms(2) by auto
  from emap_Inr_all [OF xs this] show False
    by (simp add: n x_capture_def astype_int_def)
qed

lemma extract_indices_length:
  assumes "extract_indices draws_long = Inr rows"
  shows "length rows = length draws_long"
proof -
  let ?ext = "map (\<lambda>r. str_extract (l_parameter r)) draws_long"
  from assms obtain xs ys where xs: "emap astype_int (map x_capture ?ext) = Inr xs"
    and ys: "emap astype_int (map y_capture ?ext) = Inr ys"
    and rows: "rows = map (\<lambda>(r, e, x, y).
                   \<lparr>chain_id = l_chain r, iteration = l_iter r, draw = l_draw r,
                    variable = variable_capture e, idx_x = x, idx_y = y, val = l_value r\<rparr>)
                 (zip draws_long (zip ?ext (zip xs ys)))"
    by (auto simp: extract_indices_def ebind_def Let_def split: sum.splits)
  from emap_length [OF xs] emap_length [OF ys] show ?thesis by (simp add: rows)
qed

lemma extract_indices_errors:
  assumes "extract_indices draws_long = Inl e"
  shows "e = ValueError ''cannot convert float NaN to integer'' \<or> e = OverflowError"
proof -
  let ?ext = "map (\<lambda>r. str_extract (l_parameter r)) draws_long"
  from assms have "emap astype_int (map x_capture ?ext) = Inl e
                   \<or> emap astype_int (map y_capture ?ext) = Inl e"
    by (auto simp: extract_indices_def ebind_def Let_def split: sum.splits)
  then show ?thesis by (auto dest!: emap_Inl_some astype_int_errors)
qed

lemma melt_has_row:
  assumes "(name, vals) \<in> set (df_cols draws_df)" and "str_contains ''beta'' name"
    and "df_ids draws_df \<noteq> []" and "vals \<noteq> []"
  shows "\<exists>r \<in> set (melt draws_df). l_parameter r = name"
proof -
  obtain i ids where i: "df_ids draws_df = i # ids" using assms(3) by (cases "df_ids draws_df") auto
  obtain v vs where v: "vals = v # vs" using assms(4) by (cases vals) auto
  obtain ch it dr where c: "i = (ch, it, dr)" by (cases i) auto
  show ?thesis
    unfolding melt_def using assms(1,2)
    by (force simp: i v c)
qed

section \<open>Claims about the Index Extractor and the Draw Reshaper\<close>

text \<open>
  Claim C5, amended. The pattern begins with an optional chain prefix
  \<^verbatim>\<open>([1-9]+)?\.?\<close>, so a name that starts with a digit \<^verbatim>\<open>1-9\<close> or with a dot loses
  that start to the prefix. For every non-empty variable name \<open>v\<close> of letters, digits,
  underscores and dots whose first character is neither a digit \<^verbatim>\<open>1-9\<close> nor a dot, and
  for all \<open>r\<close> and \<open>c\<close>, the pattern applied to \<^verbatim>\<open>f"{v}[{r},{c}]"\<close> captures exactly
  \<open>v\<close> and the decimal numerals of \<open>r\<close> and \<open>c\<close>, which read back as \<open>r\<close> and \<open>c\<close>
  (and convert with \<^verbatim>\<open>astype(int)\<close> when they fit in 64 bits).
\<close>

theorem index_pattern_recovers_name:
  assumes "v \<noteq> []" and "\<forall>c \<in> set v. is_var_char c"
    and "\<not> is_19 (hd v)" and "hd v \<noteq> CHR ''.''"
  shows "str_extract (v @ ''['' @ decimal r @ '','' @ decimal c @ '']'')
           = Some (None, v, decimal r, decimal c)
         \<and> int_of_digits (decimal r) = r \<and> int_of_digits (decimal c) = c
         \<and> (int r < 2 ^ 63 \<longrightarrow> astype_int (Some (decimal r)) = Inr (int r))
         \<and> (int c < 2 ^ 63 \<longrightarrow> astype_int (Some (decimal c)) = Inr (int c))"
  using str_extract_name [OF assms, of r c]
  by (simp add: int_of_digits_decimal astype_int_def)

text \<open>The amended claim C5 at \<^verbatim>\<open>beta[3,7]\<close>.\<close>

theorem index_pattern_recovers_name_witness:
  "(''beta'' \<noteq> [] \<and> list_all is_var_char ''beta''
      \<and> \<not> is_19 (hd ''beta'') \<and> hd ''beta'' \<noteq> CHR ''.'' \<and> int 3 < 2 ^ 63 \<and> int 7 < 2 ^ 63)
   \<and> str_extract ''beta[3,7]'' = Some (None, ''beta'', ''3'', ''7'')
   \<and> astype_int (Some ''3'') = Inr 3 \<and> astype_int (Some ''7'') = Inr 7"
proof -
  have h: "''beta'' \<noteq> []" "\<forall>c \<in> set ''beta''. is_var_char c"
    "\<not> is_19 (hd ''beta'')" "hd ''beta'' \<noteq> CHR ''.''"
    by (simp_all add: is_var_char_def is_alpha_def is_19_def)
  have d: "decimal 3 = ''3''" "decimal 7 = ''7''"
    by (simp_all add: decimal.simps digit_char_def)
  from index_pattern_recovers_name [OF h, of 3 7] h show ?thesis
    by (simp add: d list_all_iff)
qed

text \<open>
  Claim C5 as stated fails at \<open>v = 1a\<close>, \<open>r = c = 1\<close>: the leading \<^verbatim>\<open>1\<close> is taken as the
  chain prefix and the variable captured is \<^verbatim>\<open>a\<close>.
\<close>

theorem index_pattern_leading_digit_counterexample:
  "list_all is_var_char ''1a''
   \<and> str_extract (''1a'' @ ''['' @ decimal 1 @ '','' @ decimal 1 @ '']'')
       = Some (Some ''1'', ''a'', ''1'', ''1'')"
  by code_simp



lemma par_names_literal:
  "par_names literal_engine fit par = Inr (filter (str_contains par) (stan_variables fit))"
  by (simp add: par_names_def literal_engine_def ebind_def)

text \<open>
  Claim C2, amended. The sort of line 36 has no iteration key: within a chain the rows
  keep the order in which the table lists them. Whenever line 19 returns (the pattern
  compiles) and the selected column names all convert (lines 25 to 33 return
  \<open>draws_long\<close>), the Draw Reshaper returns, and in its output every
  \<^verbatim>\<open>(variable, x, y)\<close> group \<open>k\<close>
  \<^item> carries the draw numbers \<open>1, ..., N\<close> in this order, \<open>N\<close> the number of its rows;
  \<^item> is in ascending \<^verbatim>\<open>chain__\<close> order;
  \<^item> consists, for the variable \<^verbatim>\<open>par\<close>, of the rows of that group in the long table,
    stably sorted by \<^verbatim>\<open>chain__\<close>: rows of one chain keep the order they had (a group
    of another variable is filtered out by line 41);
  \<^item> is in ascending \<^verbatim>\<open>(chain__, iter__)\<close> order if the long table lists the
    iterations of each chain in ascending order.
\<close>

theorem reshaper_draw_dense_in_chain_order:
  assumes names: "par_names rx fit par = Inr names"
    and pd: "draws_pd fit [''beta'', ''chain__'', ''iter__'', ''draw__''] = Inr draws_df"
    and long: "draws_long_of draws_df = Inr draws_long"
  shows "\<exists>out. draws_to_tibble_x_y rx fit par = Inr out \<and>
           (\<forall>k. map draw (group_of k out) = [1 .. int (length (group_of k out))]
               \<and> sorted (map chain_id (group_of k out))
               \<and> map content (group_of k out)
                   = (if fst k = par then map content (sort_key chain_id (group_of k draws_long))
                      else [])
               \<and> ((\<forall>c. sorted (map iteration
                               (filter (\<lambda>r. chain_id r = c) (group_of k draws_long))))
                    \<longrightarrow> sorted (map (\<lambda>r. (chain_id r, iteration r)) (group_of k out))))"
proof -
  let ?out = "filter (\<lambda>r. variable r = par) (groupby_assign (sort_values draws_long))"
  have run: "draws_to_tibble_x_y rx fit par = Inr ?out"
    by (simp add: draws_to_tibble_x_y_def ebind_def names pd long)
  have grp: "group_of k ?out
               = (if fst k = par then assign_draw (sort_key chain_id (group_of k draws_long)) else [])"
    for k
    by (simp add: group_of_filter_variable group_of_groupby_assign sort_key_group_of)
  have "map draw (group_of k ?out) = [1 .. int (length (group_of k ?out))]
          \<and> sorted (map chain_id (group_of k ?out))
          \<and> map content (group_of k ?out)
              = (if fst k = par then map content (sort_key chain_id (group_of k draws_long))
                 else [])
          \<and> ((\<forall>c. sorted (map iteration
                          (filter (\<lambda>r. chain_id r = c) (group_of k draws_long))))
               \<longrightarrow> sorted (map (\<lambda>r. (chain_id r, iteration r)) (group_of k ?out)))" for k
  proof (cases "fst k = par")
    case False
    then show ?thesis by (simp add: grp)
  next
    case True
    let ?ys = "sort_key chain_id (group_of k draws_long)"
    have g: "group_of k ?out = assign_draw ?ys" using True by (simp add: grp)
    have a: "map draw (assign_draw ?ys) = [1 .. int (length (assign_draw ?ys))]"
      by (simp add: draw_assign_draw length_assign_draw)
    have b: "sorted (map chain_id (assign_draw ?ys))"
      by (simp add: map_assign_draw)
    have c: "map content (assign_draw ?ys) = map content ?ys"
      by (rule content_assign_draw)
    have d: "sorted (map (\<lambda>r. (chain_id r, iteration r)) (assign_draw ?ys))"
      if "\<forall>c. sorted (map iteration (filter (\<lambda>r. chain_id r = c) (group_of k draws_long)))"
    proof -
      have "sorted (map (\<lambda>r. (chain_id r, iteration r)) ?ys)"
      proof (rule sorted_lex_of_blocks)
        show "sorted (map chain_id ?ys)" by simp
      next
        fix c
        show "sorted (map iteration (filter (\<lambda>r. chain_id r = c) ?ys))"
          using that by (simp add: sort_key_stable)
      qed
      then show ?thesis by (simp add: map_assign_draw)
    qed
    show ?thesis unfolding g using a b c d True by simp
  qed
  with run show ?thesis by blast
qed

text \<open>
  The amended claim C2 on two chains of two iterations whose rows arrive interleaved
  (chain 2, chain 1, chain 2, chain 1): the group \<^verbatim>\<open>beta[1,1]\<close> comes out as
  chain 1 iterations 1, 2, then chain 2 iterations 1, 2, numbered 1 to 4.
\<close>

theorem reshaper_draw_dense_in_chain_order_witness:
  "par_names literal_engine two_chain_fit ''beta'' = Inr [''beta'']
   \<and> draws_pd two_chain_fit [''beta'', ''chain__'', ''iter__'', ''draw__''] = Inr two_chain_beta
   \<and> draws_long_of two_chain_beta = Inr two_chain_long
   \<and> (\<forall>c. sorted (map iteration
                (filter (\<lambda>r. chain_id r = c) (group_of (''beta'', 1, 1) two_chain_long))))
   \<and> (\<exists>out. draws_to_tibble_x_y literal_engine two_chain_fit ''beta'' = Inr out
         \<and> map draw (group_of (''beta'', 1, 1) out) = [1, 2, 3, 4]
         \<and> map content (group_of (''beta'', 1, 1) out)
             = [(1, 1, ''beta'', 1, 1, 10), (1, 2, ''beta'', 1, 1, 20),
                (2, 1, ''beta'', 1, 1, 30), (2, 2, ''beta'', 1, 1, 40)]
         \<and> sorted (map (\<lambda>r. (chain_id r, iteration r)) (group_of (''beta'', 1, 1) out)))"
proof -
  let ?k = "(''beta'', 1::int, 1::int)"
  have names: "par_names literal_engine two_chain_fit ''beta'' = Inr [''beta'']"
    by code_simp
  have grp: "group_of ?k two_chain_long
               = [mk_row 2 1 3 ''beta'' 1 1 30, mk_row 1 1 1 ''beta'' 1 1 10,
                  mk_row 2 2 4 ''beta'' 1 1 40, mk_row 1 2 2 ''beta'' 1 1 20]"
    by (simp add: group_of_def two_chain_long_def group_key_def mk_row_def)
  have it: "\<forall>c. sorted (map iteration (filter (\<lambda>r. chain_id r = c) (group_of ?k two_chain_long)))"
    unfolding grp by (simp add: mk_row_def)
  from reshaper_draw_dense_in_chain_order [OF names two_chain_pd two_chain_long_eq]
  obtain out where run: "draws_to_tibble_x_y literal_engine two_chain_fit ''beta'' = Inr out"
    and dr: "map draw (group_of ?k out) = [1 .. int (length (group_of ?k out))]"
    and ct: "map content (group_of ?k out) = map content (sort_key chain_id (group_of ?k two_chain_long))"
    and so: "(\<forall>c. sorted (map iteration (filter (\<lambda>r. chain_id r = c) (group_of ?k two_chain_long))))
               \<longrightarrow> sorted (map (\<lambda>r. (chain_id r, iteration r)) (group_of ?k out))"
    by fastforce
  have ct': "map content (group_of ?k out)
               = [(1, 1, ''beta'', 1, 1, 10), (1, 2, ''beta'', 1, 1, 20),
                  (2, 1, ''beta'', 1, 1, 30), (2, 2, ''beta'', 1, 1, 40)]"
    unfolding ct grp by (simp add: mk_row_def content_def)
  have "length (map content (group_of ?k out)) = 4" unfolding ct' by simp
  then have len: "length (group_of ?k out) = 4" by simp
  have up: "[1 .. (4::int)] = [1, 2, 3, 4]" by code_simp
  have dr': "map draw (group_of ?k out) = [1, 2, 3, 4]"
    using dr unfolding len by (simp add: up)
  from so it have srt: "sorted (map (\<lambda>r. (chain_id r, iteration r)) (group_of ?k out))" by blast
  have "\<exists>out. draws_to_tibble_x_y literal_engine two_chain_fit ''beta'' = Inr out
         \<and> map draw (group_of ?k out) = [1, 2, 3, 4]
         \<and> map content (group_of ?k out)
             = [(1, 1, ''beta'', 1, 1, 10), (1, 2, ''beta'', 1, 1, 20),
                (2, 1, ''beta'', 1, 1, 30), (2, 2, ''beta'', 1, 1, 40)]
         \<and> sorted (map (\<lambda>r. (chain_id r, iteration r)) (group_of ?k out))"
    using run dr' ct' srt by (intro exI [of _ out] conjI)
  with names two_chain_pd two_chain_long_eq it show ?thesis by (intro conjI)
qed

text \<open>
  Claim C2 as stated fails on a table of one chain that lists iteration 2 before
  iteration 1: draw 1 goes to iteration 2 and draw 2 to iteration 1, which is not the
  ascending \<^verbatim>\<open>(chain__, iter__)\<close> order.
\<close>

theorem reshaper_iteration_order_counterexample:
  "draws_to_tibble_x_y literal_engine reversed_fit ''beta''
     = Inr [mk_row 1 2 1 ''beta'' 1 1 20, mk_row 1 1 2 ''beta'' 1 1 10]
   \<and> \<not> sorted (map (\<lambda>r. (chain_id r, iteration r))
                 [mk_row 1 2 1 ''beta'' 1 1 (20::int), mk_row 1 1 2 ''beta'' 1 1 10])"
  by code_simp

text \<open>
  Claim C3, amended. Nothing drops a record whose name fails the pattern: its index
  cells are NaN and line 32 converts the whole column with \<^verbatim>\<open>astype(int)\<close>. If line
  19 returns (the pattern \<^verbatim>\<open>par\<close> compiles), a selected column (its name contains
  \<^verbatim>\<open>beta\<close>) does not match the index pattern and the frame has at least one row,
  then the Draw Reshaper raises: \<^verbatim>\<open>ValueError\<close> for the NaN cell, or
  \<^verbatim>\<open>OverflowError\<close> if an index before it does not fit in 64 bits.
\<close>

theorem reshaper_unparseable_name_raises:
  assumes names: "par_names rx fit par = Inr names"
    and pd: "draws_pd fit [''beta'', ''chain__'', ''iter__'', ''draw__''] = Inr draws_df"
    and col: "(name, vals) \<in> set (df_cols draws_df)" "str_contains ''beta'' name"
    and nomatch: "str_extract name = None"
    and rows: "df_ids draws_df \<noteq> []" "vals \<noteq> []"
  shows "draws_to_tibble_x_y rx fit par = Inl (ValueError ''cannot convert float NaN to integer'')
         \<or> draws_to_tibble_x_y rx fit par = Inl OverflowError"
proof -
  from melt_has_row [OF col rows] obtain r
    where r: "r \<in> set (melt draws_df)" "l_parameter r = name" by blast
  have "\<exists>e. draws_long_of draws_df = Inl e"
  proof (cases "draws_long_of draws_df")
    case (Inl e)
    then show ?thesis by blast
  next
    case (Inr long)
    then have "extract_indices (melt draws_df) = Inr long" by (simp add: draws_long_of_def)
    from extract_indices_matched [OF this r(1)] nomatch r(2) show ?thesis by simp
  qed
  then obtain e where e: "draws_long_of draws_df = Inl e" by blast
  then have "extract_indices (melt draws_df) = Inl e" by (simp add: draws_long_of_def)
  from extract_indices_errors [OF this] e pd names show ?thesis
    by (auto simp: draws_to_tibble_x_y_def ebind_def)
qed

text \<open>
  The amended claim C3 on a frame with the columns \<^verbatim>\<open>beta[1,1]\<close> and \<^verbatim>\<open>beta[2]\<close>:
  the second name has no second index, and the call raises.
\<close>

theorem reshaper_unparseable_name_raises_witness:
  "par_names literal_engine mixed_fit ''beta'' = Inr [''beta'']
   \<and> draws_pd mixed_fit [''beta'', ''chain__'', ''iter__'', ''draw__''] = Inr mixed_table
   \<and> (''beta[2]'', [7, 8]) \<in> set (df_cols mixed_table) \<and> str_contains ''beta'' ''beta[2]''
   \<and> str_extract ''beta[2]'' = None \<and> df_ids mixed_table \<noteq> [] \<and> [7, 8 :: int] \<noteq> []
   \<and> (draws_to_tibble_x_y literal_engine mixed_fit ''beta''
         = Inl (ValueError ''cannot convert float NaN to integer'')
       \<or> draws_to_tibble_x_y literal_engine mixed_fit ''beta'' = Inl OverflowError)"
proof -
  have names: "par_names literal_engine mixed_fit ''beta'' = Inr [''beta'']" by code_simp
  have pd: "draws_pd mixed_fit [''beta'', ''chain__'', ''iter__'', ''draw__''] = Inr mixed_table"
    by (simp add: mixed_fit_def engine_fit_def mixed_table_def column_variable_def)
  have col: "(''beta[2]'', [7, 8]) \<in> set (df_cols mixed_table)" "str_contains ''beta'' ''beta[2]''"
    by (simp_all add: mixed_table_def)
  have nomatch: "str_extract ''beta[2]'' = None" by code_simp
  have rows: "df_ids mixed_table \<noteq> []" "[7, 8 :: int] \<noteq> []"
    by (simp_all add: mixed_table_def)
  from reshaper_unparseable_name_raises [OF names pd col nomatch rows]
    names pd col nomatch rows
  show ?thesis by (intro conjI)
qed

text \<open>
  Claim C3 as stated fails on a fit whose \<^verbatim>\<open>beta\<close> is a vector (columns \<^verbatim>\<open>beta[1]\<close>,
  \<^verbatim>\<open>beta[2]\<close>, one draw): no name matches the pattern, and instead of an empty table
  the call raises \<^verbatim>\<open>ValueError\<close>.
\<close>

theorem reshaper_vector_parameter_counterexample:
  "str_extract ''beta[1]'' = None
   \<and> par_names literal_engine vector_fit ''beta'' = Inr [''beta'']
   \<and> draws_to_tibble_x_y literal_engine vector_fit ''beta''
       = Inl (ValueError ''cannot convert float NaN to integer'')"
  by code_simp

text \<open>
  Claim C4 fails on the code (a defect of the code): line 19 computes the names that
  match \<^verbatim>\<open>par\<close> and nothing reads them; lines 22 and 25 ask the engine for
  \<^verbatim>\<open>'beta'\<close> and melt the columns whose name contains \<^verbatim>\<open>'beta'\<close>, whatever \<^verbatim>\<open>par\<close>
  is. On a fit with the variables \<^verbatim>\<open>beta\<close> and \<^verbatim>\<open>random_effect\<close>, the call with
  \<^verbatim>\<open>par = "random_effect"\<close> finds the matching name \<^verbatim>\<open>random_effect\<close>, yet selects
  no column of it: the result is the empty table.
\<close>

theorem reshaper_ignores_pattern:
  "par_names literal_engine two_chain_fit ''random_effect'' = Inr [''random_effect'']
   \<and> map l_parameter (melt two_chain_table)
       = [''beta[1,1]'', ''beta[1,1]'', ''beta[1,1]'', ''beta[1,1]'',
          ''beta[1,2]'', ''beta[1,2]'', ''beta[1,2]'', ''beta[1,2]'']
   \<and> draws_to_tibble_x_y literal_engine two_chain_fit ''random_effect'' = Inr []"
  by code_simp

section \<open>The Contrast Evaluator\<close>

lemma heap_print_invalid_contrasts [simp]:
  "heap (print_invalid_contrasts items pn st) = heap st"
  by (simp add: print_invalid_contrasts_def)

lemma set_column_has_column: "column_name \<in> set (map fst (set_column column_name col df))"
  by (auto simp: set_column_def image_iff split: prod.splits)

lemma set_column_keeps_columns:
  "c \<in> set (map fst df) \<Longrightarrow> c \<in> set (map fst (set_column column_name col df))"
  by (force simp: set_column_def image_iff split: prod.splits)

lemma mutate_with_formula_ref:
  "mutate_with_formula pd_eval pn ign x c f st = (Inr r, st') \<Longrightarrow> r = x"
  by (auto simp: mutate_with_formula_def Let_def split: sum.splits if_splits)

lemma mutate_with_formula_others:
  "r \<noteq> x \<Longrightarrow> heap (snd (mutate_with_formula pd_eval pn ign x c f st)) r = heap st r"
  by (auto simp: mutate_with_formula_def Let_def split: sum.splits if_splits)

lemma mutate_with_formula_keeps:
  "c' \<in> set (map fst (heap st x)) \<Longrightarrow>
   c' \<in> set (map fst (heap (snd (mutate_with_formula pd_eval pn ign x c f st)) x))"
  by (auto simp: mutate_with_formula_def Let_def intro: set_column_keeps_columns [simplified]
      split: sum.splits if_splits)

lemma mutate_with_formula_success:
  assumes "pd_eval (heap st x) (escape_column_names f pn) = Inr col"
  shows "fst (mutate_with_formula pd_eval pn ign x c f st) = Inr x"
    and "c \<in> set (map fst (heap (snd (mutate_with_formula pd_eval pn ign x c f st)) x))"
  using assms set_column_has_column [of c col "heap st x"]
  by (simp_all add: mutate_with_formula_def Let_def)

lemma mutate_loop_ref:
  "mutate_loop pd_eval pn ign x items st = (Inr r, st') \<Longrightarrow> r = x"
proof (induction items arbitrary: st)
  case Nil
  then show ?case by simp
next
  case (Cons a items)
  obtain c f where a: "a = (c, f)" by (cases a) auto
  show ?case
  proof (cases "mutate_with_formula pd_eval pn ign x c f st")
    case (Pair res s1)
    show ?thesis
    proof (cases res)
      case (Inl e)
      with Cons.prems Pair a show ?thesis by simp
    next
      case (Inr x')
      with Pair have "x' = x" by (auto dest: mutate_with_formula_ref)
      with Cons.prems Pair a Inr have "mutate_loop pd_eval pn ign x items s1 = (Inr r, st')"
        by simp
      then show ?thesis by (rule Cons.IH)
    qed
  qed
qed

lemma mutate_loop_others:
  "r \<noteq> x \<Longrightarrow> heap (snd (mutate_loop pd_eval pn ign x items st)) r = heap st r"
proof (induction items arbitrary: st)
  case Nil
  then show ?case by simp
next
  case (Cons a items)
  obtain c f where a: "a = (c, f)" by (cases a) auto
  show ?case
  proof (cases "mutate_with_formula pd_eval pn ign x c f st")
    case (Pair res s1)
    have s1: "heap s1 r = heap st r"
      using mutate_with_formula_others [OF Cons.prems, of pd_eval pn ign c f st] Pair by simp
    show ?thesis
    proof (cases res)
      case (Inl e)
      with Pair a s1 show ?thesis by simp
    next
      case (Inr x')
      with Pair have "x' = x" by (auto dest: mutate_with_formula_ref)
      with Pair a Inr s1 Cons.IH [OF Cons.prems, of s1] show ?thesis by simp
    qed
  qed
qed

lemma mutate_loop_keeps:
  "c' \<in> set (map fst (heap st x)) \<Longrightarrow>
   c' \<in> set (map fst (heap (snd (mutate_loop pd_eval pn ign x items st)) x))"
proof (induction items arbitrary: st)
  case Nil
  then show ?case by simp
next
  case (Cons a items)
  obtain c f where a: "a = (c, f)" by (cases a) auto
  show ?case
  proof (cases "mutate_with_formula pd_eval pn ign x c f st")
    case (Pair res s1)
    have s1: "c' \<in> set (map fst (heap s1 x))"
      using mutate_with_formula_keeps [OF Cons.prems, of pd_eval pn ign c f] Pair by simp
    show ?thesis
    proof (cases res)
      case (Inl e)
      with Pair a s1 show ?thesis by simp
    next
      case (Inr x')
      with Pair have "x' = x" by (auto dest: mutate_with_formula_ref)
      with Pair a Inr Cons.IH [OF s1] show ?thesis by simp
    qed
  qed
qed

lemma mutate_loop_append:
  assumes "mutate_loop pd_eval pn ign x pre st = (Inr x, st2)"
  shows "mutate_loop pd_eval pn ign x (pre @ rest) st = mutate_loop pd_eval pn ign x rest st2"
  using assms
proof (induction pre arbitrary: st)
  case Nil
  then show ?case by simp
next
  case (Cons a pre)
  obtain c f where a: "a = (c, f)" by (cases a) auto
  show ?case
  proof (cases "mutate_with_formula pd_eval pn ign x c f st")
    case (Pair res s1)
    show ?thesis
    proof (cases res)
      case (Inl e)
      with Cons.prems Pair a show ?thesis by simp
    next
      case (Inr x')
      with Pair have x': "x' = x" by (auto dest: mutate_with_formula_ref)
      with Cons.prems Pair a Inr have "mutate_loop pd_eval pn ign x pre s1 = (Inr x, st2)"
        by simp
      from Cons.IH [OF this] Pair a Inr x' show ?thesis by simp
    qed
  qed
qed


lemma column_cells_set_column_same:
  "set (column_cells column_name (set_column column_name col df)) = {col}"
proof (cases "column_name \<in> set (map fst df)")
  case True
  then obtain p where p: "p \<in> set df" "fst p = column_name" by auto
  have "set (column_cells column_name (set_column column_name col df)) \<subseteq> {col}"
    using True by (auto simp: column_cells_def set_column_def split: prod.splits if_splits)
  moreover have "col \<in> set (column_cells column_name (set_column column_name col df))"
    using True p by (force simp: column_cells_def set_column_def image_iff split: prod.splits)
  ultimately show ?thesis by blast
next
  case False
  then have "filter (\<lambda>p. fst p = column_name) df = []"
    by (auto simp: filter_empty_conv)
  with False show ?thesis by (simp add: column_cells_def set_column_def)
qed

lemma column_cells_set_column_other:
  "c' \<noteq> column_name \<Longrightarrow>
   column_cells c' (set_column column_name col df) = column_cells c' df"
proof -
  assume ne: "c' \<noteq> column_name"
  have "filter (\<lambda>p. fst p = c')
          (map (\<lambda>(n, c). if n = column_name then (n, col) else (n, c)) df)
        = filter (\<lambda>p. fst p = c') df"
    using ne by (induction df) (auto split: prod.splits)
  with ne show ?thesis by (simp add: column_cells_def set_column_def)
qed

lemma mutate_with_formula_cells_other:
  "c' \<noteq> c \<Longrightarrow>
   column_cells c' (heap (snd (mutate_with_formula pd_eval pn ign x c f st)) x)
   = column_cells c' (heap st x)"
  by (auto simp: mutate_with_formula_def Let_def column_cells_set_column_other
      split: sum.splits if_splits)

lemma mutate_loop_cells_other:
  "c' \<notin> set (map fst items) \<Longrightarrow>
   column_cells c' (heap (snd (mutate_loop pd_eval pn ign x items st)) x)
   = column_cells c' (heap st x)"
proof (induction items arbitrary: st)
  case Nil
  then show ?case by simp
next
  case (Cons a items)
  obtain c f where a: "a = (c, f)" by (cases a) auto
  from Cons.prems a have ne: "c' \<noteq> c" and rest: "c' \<notin> set (map fst items)" by auto
  show ?case
  proof (cases "mutate_with_formula pd_eval pn ign x c f st")
    case (Pair res s1)
    have s1: "column_cells c' (heap s1 x) = column_cells c' (heap st x)"
      using mutate_with_formula_cells_other [OF ne, of pd_eval pn ign x f st] Pair by simp
    show ?thesis
    proof (cases res)
      case (Inl e)
      with Pair a s1 show ?thesis by simp
    next
      case (Inr x')
      with Pair have "x' = x" by (auto dest: mutate_with_formula_ref)
      with Pair a Inr s1 Cons.IH [OF rest, of s1] show ?thesis by simp
    qed
  qed
qed

lemma mutate_with_formula_assigns:
  assumes "pd_eval (heap st x) (escape_column_names f pn) = Inr col"
  shows "set (column_cells c (heap (snd (mutate_with_formula pd_eval pn ign x c f st)) x)) = {col}"
  using assms by (simp add: mutate_with_formula_def Let_def column_cells_set_column_same)


section \<open>Claims about the Contrast Evaluator\<close>

text \<open>
  Claim C7. The elements extracted from the formula \<^verbatim>\<open>2/3*a - b\<close> are \<^verbatim>\<open>a\<close> and
  \<^verbatim>\<open>b\<close>. In strict mode (\<^verbatim>\<open>ignore_errors\<close> false), when some extracted element is
  not a column of the table, the call raises one \<^verbatim>\<open>ValueError\<close> whose message
  carries the list of all the extracted elements that are not columns, and the table
  is left as it was.
\<close>

theorem contrast_identifiers_and_strict_error:
  assumes "formula_items formula_expr = Inr items"
    and "missing_contrasts items (map fst (heap st x)) \<noteq> []"
  shows "clean_contrast_elements ''2/3*a - b'' = [''a'', ''b'']
         \<and> fst (mutate_from_expr_list pd_eval x formula_expr False st)
             = Inl (ValueError_missing_contrasts
                     (filter (\<lambda>e. e \<notin> set (map fst (heap st x))) (contrast_elements items)))
         \<and> heap (snd (mutate_from_expr_list pd_eval x formula_expr False st)) = heap st"
proof -
  have "clean_contrast_elements ''2/3*a - b'' = [''a'', ''b'']" by code_simp
  moreover have "fst (mutate_from_expr_list pd_eval x formula_expr False st)
             = Inl (ValueError_missing_contrasts
                     (filter (\<lambda>e. e \<notin> set (map fst (heap st x))) (contrast_elements items)))"
    using assms by (simp add: mutate_from_expr_list_def Let_def missing_contrasts_def)
  moreover have "heap (snd (mutate_from_expr_list pd_eval x formula_expr False st)) = heap st"
    using assms by (simp add: mutate_from_expr_list_def Let_def)
  ultimately show ?thesis by (intro conjI)
qed

text \<open>
  Claim C7 on a table with the single column \<^verbatim>\<open>a\<close> and the formula
  \<^verbatim>\<open>2/3*a - b\<close>: the error names \<^verbatim>\<open>b\<close>.
\<close>

theorem contrast_identifiers_and_strict_error_witness:
  "formula_items (Formula_dict [(''c'', ''2/3*a - b'')]) = Inr [(''c'', ''2/3*a - b'')]
   \<and> missing_contrasts [(''c'', ''2/3*a - b'')] (map fst (heap toy_state 0)) = [''b'']
   \<and> fst (mutate_from_expr_list toy_eval 0 (Formula_dict [(''c'', ''2/3*a - b'')]) False toy_state)
       = Inl (ValueError_missing_contrasts [''b''])"
proof -
  have items: "formula_items (Formula_dict [(''c'', ''2/3*a - b'')]) = Inr [(''c'', ''2/3*a - b'')]"
    by (simp add: formula_items_def)
  have ce: "contrast_elements [(''c'', ''2/3*a - b'')] = [''a'', ''b'']" by code_simp
  have miss: "missing_contrasts [(''c'', ''2/3*a - b'')] (map fst (heap toy_state 0)) = [''b'']"
    by (simp add: missing_contrasts_def ce toy_state_def)
  then have ne: "missing_contrasts [(''c'', ''2/3*a - b'')] (map fst (heap toy_state 0)) \<noteq> []"
    by simp
  from contrast_identifiers_and_strict_error [OF items ne, of toy_eval]
  have "fst (mutate_from_expr_list toy_eval 0 (Formula_dict [(''c'', ''2/3*a - b'')]) False toy_state)
       = Inl (ValueError_missing_contrasts [''b''])"
    using miss by (simp add: missing_contrasts_def)
  with items miss show ?thesis by (intro conjI)
qed


text \<open>
  Claim C10. Let the call get past the strict check of line 119, let the loop reach
  the item \<^verbatim>\<open>(new_col, formula)\<close> without raising, in the state \<open>st2\<close>, and let the
  formula evaluate there to the column \<open>col\<close>. Then after the call, whether it
  returns or a later formula raises, the frame stored at the caller's address \<open>x\<close>
  has a column \<^verbatim>\<open>new_col\<close>, and every column of that name holds \<open>col\<close>, the values
  that were evaluated (no later item has the key \<^verbatim>\<open>new_col\<close>, the keys of a dict
  being distinct); no other object has changed; and what the call returns is the
  address \<open>x\<close> itself.
\<close>

theorem contrast_assigns_into_argument:
  assumes items: "formula_items formula_expr = Inr (pre @ (new_col, formula) # post)"
    and strict: "ignore_errors \<or> missing_contrasts (pre @ (new_col, formula) # post)
                                   (map fst (heap st x)) = []"
    and before: "mutate_loop pd_eval (map fst (heap st x)) ignore_errors x pre
                   (print_invalid_contrasts (pre @ (new_col, formula) # post)
                      (map fst (heap st x)) st) = (Inr x, st2)"
    and ok: "pd_eval (heap st2 x) (escape_column_names formula (map fst (heap st x))) = Inr col"
  shows "new_col \<in> set (map fst
           (heap (snd (mutate_from_expr_list pd_eval x formula_expr ignore_errors st)) x))
         \<and> (new_col \<notin> set (map fst post) \<longrightarrow>
              set (column_cells new_col
                (heap (snd (mutate_from_expr_list pd_eval x formula_expr ignore_errors st)) x))
              = {col})
         \<and> (\<forall>r. r \<noteq> x \<longrightarrow>
               heap (snd (mutate_from_expr_list pd_eval x formula_expr ignore_errors st)) r
               = heap st r)
         \<and> (\<forall>r. fst (mutate_from_expr_list pd_eval x formula_expr ignore_errors st) = Inr r
               \<longrightarrow> r = x)"
proof -
  let ?pn = "map fst (heap st x)"
  let ?items = "pre @ (new_col, formula) # post"
  let ?st1 = "print_invalid_contrasts ?items ?pn st"
  have run: "mutate_from_expr_list pd_eval x formula_expr ignore_errors st
               = mutate_loop pd_eval ?pn ignore_errors x ?items ?st1"
    using items strict by (auto simp: mutate_from_expr_list_def Let_def)
  obtain s3 where step: "mutate_with_formula pd_eval ?pn ignore_errors x new_col formula st2
                           = (Inr x, s3)"
    and has: "new_col \<in> set (map fst (heap s3 x))"
    and cells: "set (column_cells new_col (heap s3 x)) = {col}"
    using mutate_with_formula_success
      [where pd_eval = pd_eval and st = st2 and x = x and f = formula and pn = "?pn"
         and col = col and ign = ignore_errors and c = new_col, OF ok]
      mutate_with_formula_assigns
      [where pd_eval = pd_eval and st = st2 and x = x and f = formula and pn = "?pn"
         and col = col and ign = ignore_errors and c = new_col, OF ok]
    by (cases "mutate_with_formula pd_eval ?pn ignore_errors x new_col formula st2") auto
  have "mutate_loop pd_eval ?pn ignore_errors x ?items ?st1
          = mutate_loop pd_eval ?pn ignore_errors x ((new_col, formula) # post) st2"
    by (rule mutate_loop_append [OF before])
  also have "\<dots> = mutate_loop pd_eval ?pn ignore_errors x post s3"
    by (simp add: step)
  finally have loop: "mutate_loop pd_eval ?pn ignore_errors x ?items ?st1
                        = mutate_loop pd_eval ?pn ignore_errors x post s3" .
  have a: "new_col \<in> set (map fst
             (heap (snd (mutate_from_expr_list pd_eval x formula_expr ignore_errors st)) x))"
    unfolding run loop by (rule mutate_loop_keeps [OF has])
  have v: "set (column_cells new_col
             (heap (snd (mutate_from_expr_list pd_eval x formula_expr ignore_errors st)) x)) = {col}"
    if "new_col \<notin> set (map fst post)"
    unfolding run loop using mutate_loop_cells_other [OF that, of pd_eval ?pn ignore_errors x s3] cells
    by simp
  have b: "heap (snd (mutate_from_expr_list pd_eval x formula_expr ignore_errors st)) r = heap st r"
    if "r \<noteq> x" for r
    unfolding run using mutate_loop_others [OF that, of pd_eval ?pn ignore_errors ?items ?st1]
    by simp
  have c: "r = x"
    if h: "fst (mutate_from_expr_list pd_eval x formula_expr ignore_errors st) = Inr r" for r
  proof -
    obtain s where "mutate_loop pd_eval ?pn ignore_errors x ?items ?st1 = (Inr r, s)"
      using h unfolding run
      by (cases "mutate_loop pd_eval ?pn ignore_errors x ?items ?st1") auto
    then show ?thesis by (rule mutate_loop_ref)
  qed
  from a v b c show ?thesis by blast
qed

text \<open>
  Claim C10 on the table with the column \<^verbatim>\<open>a\<close> \<open>= [1, 2]\<close> and two formulas, in
  lenient mode: the first fails with a warning, the second assigns \<^verbatim>\<open>a + a\<close> to the
  existing column \<^verbatim>\<open>a\<close>, and the caller's table holds \<open>[2, 4]\<close> there afterwards.
\<close>

theorem contrast_assigns_into_argument_witness:
  "formula_items (Formula_dict [(''d'', ''zz''), (''a'', ''a + a'')])
     = Inr ([(''d'', ''zz'')] @ (''a'', ''a + a'') # [])
   \<and> heap toy_state 0 = [(''a'', [1, 2])]
   \<and> toy_eval (heap toy_state 0) ''a + a'' = Inr [2, 4]
   \<and> fst (mutate_from_expr_list toy_eval 0
            (Formula_dict [(''d'', ''zz''), (''a'', ''a + a'')]) True toy_state) = Inr 0
   \<and> set (column_cells ''a'' (heap (snd (mutate_from_expr_list toy_eval 0
            (Formula_dict [(''d'', ''zz''), (''a'', ''a + a'')]) True toy_state)) 0)) = {[2, 4]}
   \<and> heap (snd (mutate_from_expr_list toy_eval 0
            (Formula_dict [(''d'', ''zz''), (''a'', ''a + a'')]) True toy_state)) 0
       = [(''a'', [2, 4])]"
proof -
  let ?fe = "Formula_dict [(''d'', ''zz''), (''a'', ''a + a'')]"
  let ?items = "[(''d'', ''zz'')] @ (''a'', ''a + a'') # []"
  let ?st1 = "print_invalid_contrasts ?items (map fst (heap toy_state 0)) toy_state"
  let ?st2 = "?st1\<lparr>stdout := stdout ?st1 @ [Warning_formula ''zz'' (ValueError ''unsupported formula'')]\<rparr>"
  have items: "formula_items ?fe = Inr ?items" by (simp add: formula_items_def)
  have cols: "map fst (heap toy_state 0) = [''a'']" by (simp add: toy_state_def)
  have h0: "heap toy_state 0 = [(''a'', [1, 2])]" by (simp add: toy_state_def)
  have strict: "True \<or> missing_contrasts ?items (map fst (heap toy_state 0)) = []" by simp
  have esc_zz: "escape_column_names ''zz'' [''a''] = ''zz''" by code_simp
  have esc_aa: "escape_column_names ''a + a'' [''a''] = ''a + a''" by code_simp
  have before: "mutate_loop toy_eval (map fst (heap toy_state 0)) True 0 [(''d'', ''zz'')] ?st1
                  = (Inr 0, ?st2)"
    by (simp add: cols mutate_with_formula_def esc_zz toy_eval_def Let_def)
  have ok: "toy_eval (heap ?st2 0) (escape_column_names ''a + a'' (map fst (heap toy_state 0)))
              = Inr [2, 4]"
    by (simp add: cols esc_aa toy_eval_def lookup_column_def toy_state_def)
  have ok0: "toy_eval (heap toy_state 0) ''a + a'' = Inr [2, 4]"
    by (simp add: toy_state_def toy_eval_def lookup_column_def)
  have res: "fst (mutate_from_expr_list toy_eval 0 ?fe True toy_state) = Inr 0"
    by (simp add: mutate_from_expr_list_def formula_items_def Let_def cols
        mutate_with_formula_def esc_zz esc_aa toy_eval_def lookup_column_def toy_state_def)
  have fin: "heap (snd (mutate_from_expr_list toy_eval 0 ?fe True toy_state)) 0 = [(''a'', [2, 4])]"
    by (simp add: mutate_from_expr_list_def formula_items_def Let_def cols set_column_def
        mutate_with_formula_def esc_zz esc_aa toy_eval_def lookup_column_def toy_state_def)
  from contrast_assigns_into_argument [OF items strict before ok]
  have "set (column_cells ''a'' (heap (snd (mutate_from_expr_list toy_eval 0 ?fe True toy_state)) 0))
          = {[2, 4]}"
    by simp
  with items h0 ok0 res fin show ?thesis by (intro conjI)
qed

section \<open>Claims about the Summary Reshaper and the Orchestrator\<close>

lemma select_columns_missing:
  assumes "l \<in> set labels" and "l \<notin> set (map fst cols)"
  shows "\<exists>ls. select_columns labels cols = Inl (KeyError ls) \<and> l \<in> set ls"
  using assms by (auto simp: select_columns_def filter_empty_conv)

lemma summary_to_tibble_needs_diagnostics:
  assumes "summary fit probs = Inr summ" and "rx par = Inr found"
    and "''N_Eff'' \<notin> set (map fst (sm_cols summ)) \<or> ''R_hat'' \<notin> set (map fst (sm_cols summ))"
  shows "\<exists>ls. summary_to_tibble rx fit par x y probs = Inl (KeyError ls)"
proof -
  let ?keep = "map found (sm_index summ)"
  let ?cols = "map (\<lambda>(n, col). (n, filter_rows ?keep col)) (sm_cols summ)"
  let ?labels = "[''Mean''] @ map (\<lambda>p. decimal p @ ''%'') probs @ [''N_Eff'', ''R_hat'']"
  have names: "map fst ?cols = map fst (sm_cols summ)" by (simp add: case_prod_unfold comp_def)
  from assms(3) obtain l where l: "l \<in> set ?labels" "l \<notin> set (map fst ?cols)"
    unfolding names by auto
  from select_columns_missing [OF l] obtain ls where "select_columns ?labels ?cols = Inl (KeyError ls)"
    by blast
  then show ?thesis
    using assms(1,2) by (simp add: summary_to_tibble_def ebind_def Let_def)
qed

text \<open>
  Claim C8 fails on the code (a defect of the code). Lines 81 to 84 are there to add
  the columns \<^verbatim>\<open>N_Eff\<close> and \<^verbatim>\<open>R_hat\<close> as NaN when they are missing, but line 60
  has selected both by name before: on a summary without them it raises
  \<^verbatim>\<open>KeyError\<close>, and lines 81 to 84 are never reached with a column missing. Here:
  a summary with the mean and the five quantiles only.
\<close>

theorem summary_without_diagnostics_raises:
  "summary_to_tibble literal_engine plain_summary_fit ''beta'' ''C'' (Some ''M'') [5, 25, 50, 75, 95]
     = Inl (KeyError [''N_Eff'', ''R_hat''])"
  by code_simp

lemma value_column_not_found:
  "groupby_getitem (reshaper_columns ''C'' ''M'')
     [''C'', ''chain__'', ''iter__'', ''draw__'', ''variable''] ''.value''
   = Inl (KeyError [''Column not found: .value''])"
  by (simp add: groupby_getitem_def reshaper_columns_def)

lemma random_effect_block_raises:
  assumes "draws_to_tibble_x_y rx fit ''random_effect'' = Inr b"
  shows "random_effect_block u rx fit re_labels draws = Inl (KeyError [''Column not found: .value''])"
  using assms by (simp add: random_effect_block_def ebind_def value_column_not_found)

lemma orchestrator_raises_in_random_effect_block:
  assumes "model_input data = Some mi" and "X_columns mi = Some labels"
    and "fit_of data = Some fit" and "primary_matrix rx fit labels = Inr draws"
    and "n_random_eff mi = Bound_to n" and "0 < n"
    and "draws_to_tibble_x_y rx fit ''random_effect'' = Inr b"
  shows "get_abundance_contrast_draws rx u g data contrasts
           = Inl (KeyError [''Column not found: .value''])"
  using assms random_effect_block_raises [OF assms(7), of u "labels_of (X_random_effect mi)" draws]
  by (simp add: get_abundance_contrast_draws_def ebind_def Let_def)

lemma primary_matrix_two_chain:
  "primary_matrix literal_engine two_chain_fit [''Intercept'']
     = Inr \<lparr>id_names = [''chain__'', ''iter__'', ''draw__'', ''M''],
             value_names = [''Intercept''],
             wide_rows =
               [(Position 0, (1, 1, 1, 1), [Some 10]), (Position 1, (1, 1, 1, 2), [Some 11]),
                (Position 2, (1, 2, 2, 1), [Some 20]), (Position 3, (1, 2, 2, 2), [Some 21]),
                (Position 4, (2, 1, 3, 1), [Some 30]), (Position 5, (2, 1, 3, 2), [Some 31]),
                (Position 6, (2, 2, 4, 1), [Some 40]), (Position 7, (2, 2, 4, 2), [Some 41])]\<rparr>"
  by code_simp

lemma random_effect_two_chain:
  "draws_to_tibble_x_y literal_engine two_chain_fit ''random_effect'' = Inr []"
  by code_simp







lemma lines_216_225_diagnostics_branch:
  assumes "5 < length draws"
  shows "lines_216_225 rx fit cg draws = Inr None
         \<or> (\<exists>e. lines_216_225 rx fit cg draws = Inl e)"
  using assms by (auto simp: lines_216_225_def ebind_def Let_def split: sum.splits)

text \<open>
  Claim C9 fails on the code (a defect of the code). No call of the function returns:
  line 210 reads the name \<^verbatim>\<open>y\<close>, which nothing binds, so a call that gets that far
  raises \<^verbatim>\<open>NameError\<close>. And lines 216 to 225 themselves, on a table of more than
  five columns, compute the diagnostics and end without a \<^verbatim>\<open>return\<close>: they never
  hand back a table.
\<close>

theorem orchestrator_never_returns:
  "(\<exists>e. get_abundance_contrast_draws rx u module_globals data contrasts = Inl e)
   \<and> (5 < length draws \<longrightarrow> lines_216_225 rx fit cg draws \<noteq> Inr (Some table))"
proof -
  have "\<exists>e. get_abundance_contrast_draws rx u module_globals data contrasts = Inl e"
    by (auto simp: get_abundance_contrast_draws_def ebind_def Let_def read_global_def
        module_globals_def split: option.splits sum.splits dict_entry.splits)
  moreover have "lines_216_225 rx fit cg draws \<noteq> Inr (Some table)" if "5 < length draws"
    using lines_216_225_diagnostics_branch [OF that, of rx fit cg] by auto
  ultimately show ?thesis by blast
qed

text \<open>
  The statement about claim C9 on the fit of two chains without random effects and
  without contrasts, and on a table of six columns.
\<close>

theorem orchestrator_never_returns_witness:
  "5 < length six_columns
   \<and> (\<exists>e. get_abundance_contrast_draws literal_engine pass_through module_globals (model_data 0)
             Formula_None = Inl e)
   \<and> lines_216_225 literal_engine full_summary_fit (Some ''cell_type'') six_columns \<noteq> Inr (Some [])"
proof -
  have l: "5 < length six_columns" by (simp add: six_columns_def)
  from orchestrator_never_returns
    [of literal_engine pass_through "model_data 0" Formula_None six_columns full_summary_fit
        "Some ''cell_type''" "[]"]
    l
  show ?thesis by blast
qed

text \<open>
  Claim C1 fails on the code (a defect of the code). Lines 177 to 181 are there to
  derive the last level as the negated sum, but line 178 selects the column
  \<^verbatim>\<open>.value\<close>, and the Draw Reshaper names its column \<^verbatim>\<open>value\<close> (line 40): with one
  random-effect group declared the call raises \<^verbatim>\<open>KeyError\<close> before any level is
  derived. Here: the fit of two chains, \<^verbatim>\<open>n_random_eff = 1\<close>.
\<close>

theorem reference_level_never_derived:
  "get_abundance_contrast_draws literal_engine u module_globals (model_data 1) Formula_None
     = Inl (KeyError [''Column not found: .value''])"
proof -
  let ?mi = "\<lparr>X_columns = Some [''Intercept''], n_random_eff = Bound_to 1,
             X_random_effect = Some [''group''], X_random_effect_2 = Some [''batch'']\<rparr>"
  have a: "model_input (model_data 1) = Some ?mi" by (simp add: model_data_def)
  have b: "X_columns ?mi = Some [''Intercept'']" by simp
  have c: "fit_of (model_data 1) = Some two_chain_fit" by (simp add: model_data_def)
  have e: "n_random_eff ?mi = Bound_to 1" by simp
  have f: "(0::int) < 1" by simp
  show ?thesis
    by (rule orchestrator_raises_in_random_effect_block
          [OF a b c primary_matrix_two_chain e f random_effect_two_chain])
qed


end
